theory Spec2Isabelle
  imports Complex_Main "HOL-Library.AList"
begin

section \<open>Python values\<close>

text \<open>
  The actions of \<^verbatim>\<open>actions.py\<close> read slot values, YAML documents and message texts,
  all typed \<^verbatim>\<open>Any\<close>.  They are embedded as one datatype of Python values.  A Python
  \<^verbatim>\<open>str\<close> is a sequence of Unicode code points, so it is a list of naturals; a
  \<^verbatim>\<open>float\<close> is the real number it denotes (rounding and the non-finite values
  \<^verbatim>\<open>inf\<close> and \<^verbatim>\<open>nan\<close> are outside the model); a \<^verbatim>\<open>dict\<close> is an association list
  read by its first matching key.
\<close>

type_synonym cp = nat
type_synonym ustring = "cp list"

definition ustr :: "string \<Rightarrow> ustring" where
  "ustr s = map of_char s"

datatype pyval =
    PNone
  | PBool bool
  | PInt int
  | PFloat real
  | PStr ustring
  | PList "pyval list"
  | PDict "(pyval \<times> pyval) list"

datatype exn = TypeError | ValueError | KeyError | IndexError | AttributeError | OverflowError

text \<open>
  Two builtins of the interpreter are not part of the repository and have no short
  closed form: \<^verbatim>\<open>str(x)\<close> for a value that is neither a string, an integer, a boolean
  nor \<^verbatim>\<open>None\<close>, and \<^verbatim>\<open>float(s)\<close> for a string.  They are parameters of the model
  (\<open>float_str s = None\<close> stands for \<^verbatim>\<open>ValueError\<close>).
\<close>

record pyrt =
  str_other :: "pyval \<Rightarrow> ustring"
  float_str :: "ustring \<Rightarrow> real option"

text \<open>Truth value testing (\<^verbatim>\<open>if x\<close>, \<^verbatim>\<open>not x\<close>, \<^verbatim>\<open>x or y\<close>).\<close>

fun truthy :: "pyval \<Rightarrow> bool" where
  "truthy PNone = False"
| "truthy (PBool b) = b"
| "truthy (PInt i) = (i \<noteq> 0)"
| "truthy (PFloat r) = (r \<noteq> 0)"
| "truthy (PStr s) = (s \<noteq> [])"
| "truthy (PList xs) = (xs \<noteq> [])"
| "truthy (PDict kvs) = (kvs \<noteq> [])"

definition py_or :: "pyval \<Rightarrow> pyval \<Rightarrow> pyval" where
  "py_or x d = (if truthy x then x else d)"

text \<open>\<^verbatim>\<open>isinstance(x, int)\<close>: the integers and, as \<^verbatim>\<open>bool\<close> is a subclass of
  \<^verbatim>\<open>int\<close>, the booleans, with their integer value.\<close>

fun as_int :: "pyval \<Rightarrow> int option" where
  "as_int (PInt i) = Some i"
| "as_int (PBool b) = Some (if b then 1 else 0)"
| "as_int _ = None"

fun num_val :: "pyval \<Rightarrow> real option" where
  "num_val (PBool b) = Some (if b then 1 else 0)"
| "num_val (PInt i) = Some (of_int i)"
| "num_val (PFloat r) = Some r"
| "num_val _ = None"

text \<open>\<^verbatim>\<open>int(x)\<close> of a float truncates toward zero.\<close>

definition py_trunc :: "real \<Rightarrow> int" where
  "py_trunc r = (if 0 \<le> r then \<lfloor>r\<rfloor> else \<lceil>r\<rceil>)"

text \<open>\<^verbatim>\<open>float(x)\<close>: numbers convert, strings are parsed, anything else is a
  \<^verbatim>\<open>TypeError\<close>.  An integer converts when it rounds to a double, that is when its
  magnitude is below \<open>2 ^ 1024 - 2 ^ 970\<close>, half way between the largest double and
  \<open>2 ^ 1024\<close>; from there on \<^verbatim>\<open>float\<close> raises \<^verbatim>\<open>OverflowError\<close>.\<close>

definition float_limit :: int where
  "float_limit = 2 ^ 1024 - 2 ^ 970"

fun py_float :: "pyrt \<Rightarrow> pyval \<Rightarrow> exn + real" where
  "py_float rt (PFloat r) = Inr r"
| "py_float rt (PInt i) =
     (if - float_limit < i \<and> i < float_limit then Inr (of_int i) else Inl OverflowError)"
| "py_float rt (PBool b) = Inr (if b then 1 else 0)"
| "py_float rt (PStr s) = (case float_str rt s of None \<Rightarrow> Inl ValueError | Some r \<Rightarrow> Inr r)"
| "py_float rt PNone = Inl TypeError"
| "py_float rt (PList xs) = Inl TypeError"
| "py_float rt (PDict kvs) = Inl TypeError"

declare py_float.simps(2) [simp del]

text \<open>Key equality of a dictionary: numbers compare by value across \<^verbatim>\<open>bool\<close>,
  \<^verbatim>\<open>int\<close> and \<^verbatim>\<open>float\<close>, everything else structurally.\<close>

definition py_eq :: "pyval \<Rightarrow> pyval \<Rightarrow> bool" where
  "py_eq a b =
     (case num_val a of
        Some x \<Rightarrow> (case num_val b of Some y \<Rightarrow> x = y | None \<Rightarrow> False)
      | None \<Rightarrow> (case num_val b of Some y \<Rightarrow> False | None \<Rightarrow> a = b))"

fun dict_get :: "(pyval \<times> pyval) list \<Rightarrow> pyval \<Rightarrow> pyval option" where
  "dict_get [] k = None"
| "dict_get ((k', v) # kvs) k = (if py_eq k' k then Some v else dict_get kvs k)"

fun hashable :: "pyval \<Rightarrow> bool" where
  "hashable (PList xs) = False"
| "hashable (PDict kvs) = False"
| "hashable _ = True"

text \<open>\<^verbatim>\<open>d.get(k, default)\<close> on a dictionary.\<close>

definition get_default :: "(pyval \<times> pyval) list \<Rightarrow> ustring \<Rightarrow> pyval \<Rightarrow> pyval" where
  "get_default kvs k d = (case dict_get kvs (PStr k) of None \<Rightarrow> d | Some v \<Rightarrow> v)"

text \<open>Subscription \<^verbatim>\<open>c[k]\<close>: a dictionary by key, a list or a string by an integer
  index (negative indices count from the end).\<close>

definition py_index :: "'a list \<Rightarrow> int \<Rightarrow> exn + 'a" where
  "py_index xs i =
     (if 0 \<le> i \<and> i < int (length xs) then Inr (xs ! nat i)
      else if i < 0 \<and> - int (length xs) \<le> i then Inr (xs ! nat (int (length xs) + i))
      else Inl IndexError)"

fun py_getitem :: "pyval \<Rightarrow> pyval \<Rightarrow> exn + pyval" where
  "py_getitem (PDict kvs) k =
     (if \<not> hashable k then Inl TypeError
      else case dict_get kvs k of None \<Rightarrow> Inl KeyError | Some v \<Rightarrow> Inr v)"
| "py_getitem (PList xs) k =
     (case as_int k of None \<Rightarrow> Inl TypeError | Some i \<Rightarrow> py_index xs i)"
| "py_getitem (PStr s) k =
     (case as_int k of None \<Rightarrow> Inl TypeError
      | Some i \<Rightarrow> (case py_index s i of Inl e \<Rightarrow> Inl e | Inr c \<Rightarrow> Inr (PStr [c])))"
| "py_getitem _ k = Inl TypeError"

text \<open>Iteration \<^verbatim>\<open>for x in c\<close>: the elements of a list, the keys of a dictionary, the
  characters of a string.\<close>

fun py_iter :: "pyval \<Rightarrow> exn + pyval list" where
  "py_iter (PList xs) = Inr xs"
| "py_iter (PDict kvs) = Inr (map fst kvs)"
| "py_iter (PStr s) = Inr (map (\<lambda>c. PStr [c]) s)"
| "py_iter _ = Inl TypeError"

section \<open>Strings\<close>

text \<open>
  The character tables of the interpreter's Unicode database that the program relies on:
  the white space of \<^verbatim>\<open>str.strip\<close>, \<^verbatim>\<open>str.isspace\<close> and the pattern \<^verbatim>\<open>\s\<close>, and the decimal
  digits (general category Nd, Unicode 14.0) of the pattern \<^verbatim>\<open>\d\<close> and of \<^verbatim>\<open>int\<close>.  Every
  run of decimal digits is ten consecutive code points with the values 0 to 9.
\<close>

definition whitespace :: "cp list" where
  "whitespace = [0x9, 0xA, 0xB, 0xC, 0xD, 0x1C, 0x1D, 0x1E, 0x1F, 0x20, 0x85, 0xA0,
     0x1680, 0x2000, 0x2001, 0x2002, 0x2003, 0x2004, 0x2005, 0x2006, 0x2007, 0x2008,
     0x2009, 0x200A, 0x2028, 0x2029, 0x202F, 0x205F, 0x3000]"

definition isspace :: "cp \<Rightarrow> bool" where
  "isspace c \<longleftrightarrow> c \<in> set whitespace"

definition nd_starts :: "cp list" where
  "nd_starts = [0x30, 0x660, 0x6F0, 0x7C0, 0x966, 0x9E6, 0xA66, 0xAE6, 0xB66, 0xBE6, 0xC66,
     0xCE6, 0xD66, 0xDE6, 0xE50, 0xED0, 0xF20, 0x1040, 0x1090, 0x17E0, 0x1810, 0x1946,
     0x19D0, 0x1A80, 0x1A90, 0x1B50, 0x1BB0, 0x1C40, 0x1C50, 0xA620, 0xA8D0, 0xA900,
     0xA9D0, 0xA9F0, 0xAA50, 0xABF0, 0xFF10, 0x104A0, 0x10D30, 0x11066, 0x110F0, 0x11136,
     0x111D0, 0x112F0, 0x11450, 0x114D0, 0x11650, 0x116C0, 0x11730, 0x118E0, 0x11950,
     0x11C50, 0x11D50, 0x11DA0, 0x16A60, 0x16AC0, 0x16B50, 0x1D7CE, 0x1D7D8, 0x1D7E2,
     0x1D7EC, 0x1D7F6, 0x1E140, 0x1E2F0, 0x1E950, 0x1FBF0]"

definition decimal :: "cp \<Rightarrow> nat option" where
  "decimal c = (case find (\<lambda>b. b \<le> c \<and> c < b + 10) nd_starts of
                  None \<Rightarrow> None | Some b \<Rightarrow> Some (c - b))"

definition isdigit :: "cp \<Rightarrow> bool" where
  "isdigit c = (decimal c \<noteq> None)"

definition strip :: "ustring \<Rightarrow> ustring" where
  "strip s = rev (dropWhile isspace (rev (dropWhile isspace s)))"

text \<open>\<^verbatim>\<open>int(s)\<close> of a string, base ten: white space around, an optional sign, then decimal
  digits, where a single underscore may stand between two digits.\<close>

fun int_digits :: "ustring \<Rightarrow> nat \<Rightarrow> nat option" where
  "int_digits [] acc = Some acc"
| "int_digits (c # cs) acc =
     (if c = 0x5F
      then (case cs of
              [] \<Rightarrow> None
            | d # ds \<Rightarrow> (case decimal d of None \<Rightarrow> None
                        | Some v \<Rightarrow> int_digits ds (10 * acc + v)))
      else (case decimal c of None \<Rightarrow> None | Some v \<Rightarrow> int_digits cs (10 * acc + v)))"

definition int_body :: "ustring \<Rightarrow> nat option" where
  "int_body s = (case s of [] \<Rightarrow> None
                 | c # cs \<Rightarrow> (case decimal c of None \<Rightarrow> None | Some v \<Rightarrow> int_digits cs v))"

definition py_int_str :: "ustring \<Rightarrow> int option" where
  "py_int_str s =
     (case strip s of
        [] \<Rightarrow> None
      | c # cs \<Rightarrow>
          if c = 0x2D then map_option (\<lambda>n. - int n) (int_body cs)
          else if c = 0x2B then map_option int (int_body cs)
          else map_option int (int_body (c # cs)))"

text \<open>\<^verbatim>\<open>int(x)\<close> of a value.\<close>

fun py_int :: "pyval \<Rightarrow> exn + int" where
  "py_int (PInt i) = Inr i"
| "py_int (PBool b) = Inr (if b then 1 else 0)"
| "py_int (PFloat r) = Inr (py_trunc r)"
| "py_int (PStr s) = (case py_int_str s of None \<Rightarrow> Inl ValueError | Some i \<Rightarrow> Inr i)"
| "py_int PNone = Inl TypeError"
| "py_int (PList xs) = Inl TypeError"
| "py_int (PDict kvs) = Inl TypeError"

text \<open>\<^verbatim>\<open>str(x)\<close> of a value.\<close>

fun dec_nat :: "nat \<Rightarrow> ustring" where
  "dec_nat n = (if n < 10 then [0x30 + n] else dec_nat (n div 10) @ [0x30 + n mod 10])"

declare dec_nat.simps [simp del]

definition str_int :: "int \<Rightarrow> ustring" where
  "str_int i = (if i < 0 then 0x2D # dec_nat (nat (- i)) else dec_nat (nat i))"

fun py_str :: "pyrt \<Rightarrow> pyval \<Rightarrow> ustring" where
  "py_str rt (PStr s) = s"
| "py_str rt (PInt i) = str_int i"
| "py_str rt (PBool b) = (if b then ustr ''True'' else ustr ''False'')"
| "py_str rt PNone = ustr ''None''"
| "py_str rt v = str_other rt v"

section \<open>Conversation state and replies\<close>

text \<open>
  The tracker of the dialogue framework: named slots (an unset slot reads \<^verbatim>\<open>None\<close>), the
  latest message's text and intent name, and the sender.  An action returns the messages
  it uttered, in order, and its \<^verbatim>\<open>SlotSet\<close> events; a validation method returns the
  messages and a dictionary of slot updates.  Every fixed reply text is a constructor named
  after its content; the line of \<^verbatim>\<open>actions.py\<close> that utters it is given with it.
\<close>

type_synonym slots = "string \<Rightarrow> pyval"

record tracker =
  slot :: slots
  latest_text :: "pyval"
  latest_intent :: "string option"
  sender_id :: ustring

definition get_slot :: "tracker \<Rightarrow> string \<Rightarrow> pyval" where
  "get_slot t n = slot t n"

datatype event = SlotSet string pyval

record gpa_line =
  line_no :: nat
  line_credit :: real
  line_score :: real
  line_letter :: ustring
  line_points :: real

record tuition_msg =
  tm_group_label :: ustring
  tm_faculty :: ustring
  tm_gen_cr :: real
  tm_gen_rate :: int
  tm_gen_part :: int
  tm_maj_cr :: real
  tm_maj_rate :: int
  tm_maj_part :: int
  tm_total :: int

datatype message =
    MsgTuitionMissingInfo             \<comment> \<open>line 185\<close>
  | MsgPricingNotFound                \<comment> \<open>line 193\<close>
  | MsgDbSaveFailed ustring           \<comment> \<open>line 227, with the text of the exception\<close>
  | MsgTuition tuition_msg            \<comment> \<open>lines 238-248\<close>
  | MsgEnterCount                     \<comment> \<open>line 391\<close>
  | MsgCountRange                     \<comment> \<open>line 395\<close>
  | MsgEnterCredit                    \<comment> \<open>line 410\<close>
  | MsgCreditRange                    \<comment> \<open>line 414\<close>
  | MsgEnterScore                     \<comment> \<open>line 429\<close>
  | MsgScoreRange                     \<comment> \<open>line 433\<close>
  | MsgNoCourses                      \<comment> \<open>line 485\<close>
  | MsgGpaReport "gpa_line list" real real
      \<comment> \<open>lines 510-517: the breakdown lines, the total credit and the GPA\<close>
  | MsgClarifyKind                    \<comment> \<open>line 642\<close>
  | MsgNotAvailable                   \<comment> \<open>lines 652 and 681\<close>
  | MsgNumberNotFound                 \<comment> \<open>lines 660 and 689\<close>
  | MsgPlaceList "ustring list"       \<comment> \<open>lines 664-669: the bulleted titles\<close>
  | UtterAskPlaceType                 \<comment> \<open>line 676: response \<^verbatim>\<open>utter_ask_place_type\<close>\<close>
  | MsgPlace ustring ustring          \<comment> \<open>line 616: title and link\<close>
  | MsgPlaceNoLink ustring            \<comment> \<open>lines 618-620: title and the notice of a missing link\<close>
  | MsgPlaceUnknown                   \<comment> \<open>line 704\<close>

definition apply_update :: "(string \<times> pyval) list \<Rightarrow> slots \<Rightarrow> slots" where
  "apply_update upd s = fold (\<lambda>(n, v) f. f(n := v)) upd s"

fun apply_events :: "event list \<Rightarrow> slots \<Rightarrow> slots" where
  "apply_events [] s = s"
| "apply_events (SlotSet n v # es) s = apply_events es (s(n := v))"

section \<open>GPA helpers\<close>

record GradeMap =
  letter :: ustring
  gpa :: real

definition mkGradeMap :: "string \<Rightarrow> real \<Rightarrow> GradeMap" where
  "mkGradeMap l g = \<lparr>letter = ustr l, gpa = g\<rparr>"

definition score_to_grade :: "real \<Rightarrow> GradeMap" where
  "score_to_grade s =
     (if s \<ge> 90 then mkGradeMap ''A+'' 4.0
      else if 85 \<le> s \<and> s \<le> 89 then mkGradeMap ''A-'' 3.7
      else if 80 \<le> s \<and> s \<le> 84 then mkGradeMap ''B+'' 3.3
      else if 75 \<le> s \<and> s \<le> 79 then mkGradeMap ''B'' 3.0
      else if 70 \<le> s \<and> s \<le> 74 then mkGradeMap ''C-'' 1.9
      else if 65 \<le> s \<and> s \<le> 69 then mkGradeMap ''C'' 2.0
      else if 60 \<le> s \<and> s \<le> 64 then mkGradeMap ''D'' 1.0
      else mkGradeMap ''F'' 0.0)"

subsection \<open>The validation methods of the GPA form\<close>

definition validate_number_of_courses ::
  "pyrt \<Rightarrow> pyval \<Rightarrow> message list \<times> (string \<times> pyval) list" where
  "validate_number_of_courses rt slot_value =
     (case py_float rt slot_value of
        Inl e \<Rightarrow> ([MsgEnterCount], [(''number_of_courses'', PNone)])
      | Inr f \<Rightarrow>
          (let n = py_trunc f in
           if \<not> (1 \<le> n \<and> n \<le> 50)
           then ([MsgCountRange], [(''number_of_courses'', PNone)])
           else ([], [(''number_of_courses'', PInt n),
                      (''current_course_index'', PInt 1),
                      (''courses'', PList [])])))"

definition validate_current_credit ::
  "pyrt \<Rightarrow> pyval \<Rightarrow> message list \<times> (string \<times> pyval) list" where
  "validate_current_credit rt slot_value =
     (case py_float rt slot_value of
        Inl e \<Rightarrow> ([MsgEnterCredit], [(''current_credit'', PNone)])
      | Inr c \<Rightarrow>
          if \<not> (0 < c \<and> c \<le> 30)
          then ([MsgCreditRange], [(''current_credit'', PNone)])
          else ([], [(''current_credit'', PFloat c)]))"

text \<open>\<^verbatim>\<open>validate_current_score\<close> appends the course to the list held in the slot
  \<^verbatim>\<open>courses\<close>; the three slot reads after the range check are not guarded, so a slot that
  does not convert raises.\<close>

definition course_entry :: "real \<Rightarrow> real \<Rightarrow> pyval" where
  "course_entry credit s =
     PDict [(PStr (ustr ''credit''), PFloat credit), (PStr (ustr ''score''), PFloat s)]"

definition validate_current_score ::
  "pyrt \<Rightarrow> pyval \<Rightarrow> tracker \<Rightarrow> exn + message list \<times> (string \<times> pyval) list" where
  "validate_current_score rt slot_value tr =
     (case py_float rt slot_value of
        Inl e \<Rightarrow> Inr ([MsgEnterScore], [(''current_score'', PNone)])
      | Inr s \<Rightarrow>
          if \<not> (0 \<le> s \<and> s \<le> 100)
          then Inr ([MsgScoreRange], [(''current_score'', PNone)])
          else
            (case py_int (py_or (get_slot tr ''number_of_courses'') (PInt 0)) of
               Inl e \<Rightarrow> Inl e
             | Inr n \<Rightarrow>
            (case py_float rt (py_or (get_slot tr ''current_course_index'') (PInt 1)) of
               Inl e \<Rightarrow> Inl e
             | Inr fidx \<Rightarrow>
            (case py_float rt (py_or (get_slot tr ''current_credit'') (PInt 0)) of
               Inl e \<Rightarrow> Inl e
             | Inr credit \<Rightarrow>
                (let idx = py_trunc fidx;
                     courses0 = py_or (get_slot tr ''courses'') (PList []);
                     courses1 = (case courses0 of PList xs \<Rightarrow> xs | _ \<Rightarrow> []);
                     courses = courses1 @ [course_entry credit s];
                     next_idx = idx + 1
                 in if next_idx \<le> n
                    then Inr ([], [(''courses'', PList courses),
                                   (''current_course_index'', PInt next_idx),
                                   (''current_credit'', PNone),
                                   (''current_score'', PNone)])
                    else Inr ([], [(''courses'', PList courses),
                                   (''current_score'', PFloat s)]))))))"

subsection \<open>\<^verbatim>\<open>ActionCalculateGpa.run\<close>\<close>

definition gpa_reset :: "event list" where
  "gpa_reset =
     [SlotSet ''number_of_courses'' PNone,
      SlotSet ''current_course_index'' (PInt 1),
      SlotSet ''current_credit'' PNone,
      SlotSet ''current_score'' PNone,
      SlotSet ''courses'' (PList [])]"

text \<open>The loop over \<^verbatim>\<open>enumerate(courses, start=1)\<close>, with its three accumulators.\<close>

fun gpa_loop ::
  "pyrt \<Rightarrow> pyval list \<Rightarrow> nat \<Rightarrow> real \<Rightarrow> real \<Rightarrow> gpa_line list
     \<Rightarrow> exn + real \<times> real \<times> gpa_line list" where
  "gpa_loop rt [] i total_credits total_points lines =
     Inr (total_credits, total_points, lines)"
| "gpa_loop rt (c # cs) i total_credits total_points lines =
     (case py_getitem c (PStr (ustr ''credit'')) of
        Inl e \<Rightarrow> Inl e
      | Inr crv \<Rightarrow>
     (case py_float rt crv of
        Inl e \<Rightarrow> Inl e
      | Inr cr \<Rightarrow>
     (case py_getitem c (PStr (ustr ''score'')) of
        Inl e \<Rightarrow> Inl e
      | Inr scv \<Rightarrow>
     (case py_float rt scv of
        Inl e \<Rightarrow> Inl e
      | Inr sc \<Rightarrow>
         (let g = score_to_grade sc
          in gpa_loop rt cs (i + 1) (total_credits + cr) (total_points + cr * gpa g)
               (lines @ [\<lparr>line_no = i, line_credit = cr, line_score = sc,
                           line_letter = letter g, line_points = gpa g\<rparr>]))))))"

definition ActionCalculateGpa_run :: "pyrt \<Rightarrow> tracker \<Rightarrow> exn + message list \<times> event list" where
  "ActionCalculateGpa_run rt tr =
     (let courses = py_or (get_slot tr ''courses'') (PList [])
      in if \<not> truthy courses then Inr ([MsgNoCourses], gpa_reset)
         else
           (case py_iter courses of
              Inl e \<Rightarrow> Inl e
            | Inr cs \<Rightarrow>
                (case gpa_loop rt cs 1 0 0 [] of
                   Inl e \<Rightarrow> Inl e
                 | Inr (total_credits, total_points, lines) \<Rightarrow>
                     (let gpa = (if total_credits > 0 then total_points / total_credits else 0)
                      in Inr ([MsgGpaReport lines total_credits gpa], gpa_reset)))))"

subsection \<open>The form loop\<close>

text \<open>
  Modelled from the spec: the form loop of the dialogue framework, which is not under
  \<^verbatim>\<open>src/\<close>.  The spec's state machine of the GPA accumulator is
  \<^verbatim>\<open>CollectingCount\<close>, then \<^verbatim>\<open>CollectingCredit(i)\<close>, then \<^verbatim>\<open>CollectingScore(i)\<close>, looping
  while courses remain, then \<^verbatim>\<open>Ready\<close> and \<^verbatim>\<open>Reset\<close>: the framework requests the first
  unset slot among the count, the credit and the score, hands the user's value to the
  validation method of that slot, merges the returned slot updates, and runs
  \<^verbatim>\<open>ActionCalculateGpa.run\<close> once the three slots are set.  A session starts with every
  slot unset.  The step functions are the ones embedded above from the source.
\<close>

definition requested_slot :: "slots \<Rightarrow> string option" where
  "requested_slot s =
     (if s ''number_of_courses'' = PNone then Some ''number_of_courses''
      else if s ''current_credit'' = PNone then Some ''current_credit''
      else if s ''current_score'' = PNone then Some ''current_score''
      else None)"

inductive reachable :: "pyrt \<Rightarrow> slots \<Rightarrow> bool" for rt :: pyrt where
  start: "reachable rt (\<lambda>n. PNone)"
| count: "reachable rt s \<Longrightarrow> requested_slot s = Some ''number_of_courses'' \<Longrightarrow>
          validate_number_of_courses rt v = (msgs, upd) \<Longrightarrow>
          reachable rt (apply_update upd s)"
| credit: "reachable rt s \<Longrightarrow> requested_slot s = Some ''current_credit'' \<Longrightarrow>
          validate_current_credit rt v = (msgs, upd) \<Longrightarrow>
          reachable rt (apply_update upd s)"
| score: "reachable rt s \<Longrightarrow> requested_slot s = Some ''current_score'' \<Longrightarrow>
          slot tr = s \<Longrightarrow> validate_current_score rt v tr = Inr (msgs, upd) \<Longrightarrow>
          reachable rt (apply_update upd s)"
| finalize: "reachable rt s \<Longrightarrow> requested_slot s = None \<Longrightarrow>
          slot tr = s \<Longrightarrow> ActionCalculateGpa_run rt tr = Inr (msgs, evs) \<Longrightarrow>
          reachable rt (apply_events evs s)"

text \<open>A well-formed entry of the course list, read the way \<^verbatim>\<open>ActionCalculateGpa.run\<close>
  reads it (\<^verbatim>\<open>c["credit"]\<close>, \<^verbatim>\<open>c["score"]\<close>): a credit above 0 and a score from 0 to 100.\<close>

definition wf_entry :: "pyval \<Rightarrow> bool" where
  "wf_entry e =
     (case py_getitem e (PStr (ustr ''credit'')) of
        Inr (PFloat c) \<Rightarrow>
          (case py_getitem e (PStr (ustr ''score'')) of
             Inr (PFloat s) \<Rightarrow> 0 < c \<and> 0 \<le> s \<and> s \<le> 100
           | _ \<Rightarrow> False)
      | _ \<Rightarrow> False)"

definition wf_courses :: "pyval \<Rightarrow> bool" where
  "wf_courses v = (case v of PNone \<Rightarrow> True | PList xs \<Rightarrow> list_all wf_entry xs | _ \<Rightarrow> False)"

text \<open>The credit slot is unset or holds a value that \<^verbatim>\<open>validate_current_credit\<close> accepted.\<close>

definition credit_ok :: "pyval \<Rightarrow> bool" where
  "credit_ok v = (case v of PNone \<Rightarrow> True | PFloat c \<Rightarrow> 0 < c \<and> c \<le> 30 | _ \<Rightarrow> False)"

text \<open>An entry that \<^verbatim>\<open>ActionCalculateGpa.run\<close> can read: \<^verbatim>\<open>c["credit"]\<close> and
  \<^verbatim>\<open>c["score"]\<close> exist and \<^verbatim>\<open>float\<close> converts them.  A course list is readable when it is
  falsy, or can be iterated and holds readable entries only.\<close>

definition readable_entry :: "pyrt \<Rightarrow> pyval \<Rightarrow> bool" where
  "readable_entry rt c =
     (case py_getitem c (PStr (ustr ''credit'')) of
        Inl e \<Rightarrow> False
      | Inr crv \<Rightarrow>
     (case py_float rt crv of
        Inl e \<Rightarrow> False
      | Inr cr \<Rightarrow>
     (case py_getitem c (PStr (ustr ''score'')) of
        Inl e \<Rightarrow> False
      | Inr scv \<Rightarrow>
     (case py_float rt scv of
        Inl e \<Rightarrow> False
      | Inr sc \<Rightarrow> True))))"

definition readable_courses :: "pyrt \<Rightarrow> pyval \<Rightarrow> bool" where
  "readable_courses rt v =
     (if truthy v
      then (case py_iter v of Inl e \<Rightarrow> False | Inr cs \<Rightarrow> list_all (readable_entry rt) cs)
      else True)"

section \<open>Tuition helpers\<close>








subsection \<open>\<^verbatim>\<open>ActionCalculateTuition.run\<close>\<close>


section \<open>Location helpers\<close>

subsection \<open>The three patterns\<close>

text \<open>
  A pattern is matched the way the backtracking matcher of \<^verbatim>\<open>re\<close> does: each piece maps
  the rest of the input to the list of the rests it can leave, the preferred one first (a
  greedy repetition gives up one character at a time, an optional piece is tried before it
  is skipped), and the match is the first complete one.

  Case folding (\<^verbatim>\<open>str.lower\<close>, \<^verbatim>\<open>re.IGNORECASE\<close>) is restricted to the alphabets of the
  program's keywords and patterns: \<open>lower_cp\<close> is the lowercase mapping on Basic Latin and
  the Cyrillic block, with the one code point outside them that lowers into them; any other
  code point is left as it is.
\<close>

definition lower_cp :: "cp \<Rightarrow> cp" where
  "lower_cp c =
     (if 0x41 \<le> c \<and> c \<le> 0x5A then c + 0x20
      else if 0x400 \<le> c \<and> c \<le> 0x40F then c + 0x50
      else if 0x410 \<le> c \<and> c \<le> 0x42F then c + 0x20
      else if ((0x460 \<le> c \<and> c \<le> 0x481) \<or> (0x48A \<le> c \<and> c \<le> 0x4BF)
               \<or> (0x4D0 \<le> c \<and> c \<le> 0x4FF)) \<and> even c then c + 1
      else if c = 0x4C0 then 0x4CF
      else if 0x4C1 \<le> c \<and> c \<le> 0x4CE \<and> odd c then c + 1
      else if c = 0x212A then 0x6B
      else c)"

text \<open>\<^verbatim>\<open>\s*\<close>\<close>

fun star_space :: "ustring \<Rightarrow> ustring list" where
  "star_space [] = [[]]"
| "star_space (c # cs) = (if isspace c then star_space cs @ [c # cs] else [c # cs])"

text \<open>\<^verbatim>\<open>(\d{1,2})\<close>, with the text of the group\<close>

fun digits12 :: "ustring \<Rightarrow> (ustring \<times> ustring) list" where
  "digits12 [] = []"
| "digits12 [a] = (if isdigit a then [([a], [])] else [])"
| "digits12 (a # b # cs) =
     (if isdigit a
      then (if isdigit b then [([a, b], cs), ([a], b # cs)] else [([a], b # cs)])
      else [])"

text \<open>An optional character of a class, as in \<^verbatim>\<open>[...]?\<close> and \<^verbatim>\<open>x?\<close>\<close>

fun opt_cls :: "(cp \<Rightarrow> bool) \<Rightarrow> ustring \<Rightarrow> ustring list" where
  "opt_cls p [] = [[]]"
| "opt_cls p (c # cs) = (if p c then [cs, c # cs] else [c # cs])"

text \<open>One character of a class\<close>

fun one_cls :: "(cp \<Rightarrow> bool) \<Rightarrow> ustring \<Rightarrow> ustring list" where
  "one_cls p [] = []"
| "one_cls p (c # cs) = (if p c then [cs] else [])"

text \<open>A literal under \<^verbatim>\<open>re.IGNORECASE\<close>; the letters of the patterns are lowercase\<close>

fun lit_ci :: "ustring \<Rightarrow> ustring \<Rightarrow> ustring list" where
  "lit_ci [] s = [s]"
| "lit_ci (p # ps) [] = []"
| "lit_ci (p # ps) (c # cs) = (if lower_cp c = p then lit_ci ps cs else [])"

text \<open>\<^verbatim>\<open>$\<close>: the end of the string, or the newline that ends it\<close>

definition at_end :: "ustring \<Rightarrow> bool" where
  "at_end s \<longleftrightarrow> s = [] \<or> s = [0xA]"

text \<open>The class of dashes of lines 533 and 534: the hyphen-minus, the range from U+2010
  to U+2013 and the em dash.\<close>

definition dash :: "cp \<Rightarrow> bool" where
  "dash c \<longleftrightarrow> c = 0x2D \<or> (0x2010 \<le> c \<and> c \<le> 0x2013) \<or> c = 0x2014"

definition first_group :: "ustring list \<Rightarrow> ustring option" where
  "first_group gs = (case gs of [] \<Rightarrow> None | g # _ \<Rightarrow> Some g)"

text \<open>\<^verbatim>\<open>NUM_ONLY_RE.match\<close>, giving \<^verbatim>\<open>m.group(1)\<close>\<close>

definition NUM_ONLY_RE_match :: "ustring \<Rightarrow> ustring option" where
  "NUM_ONLY_RE_match t =
     first_group
       [g. s1 \<leftarrow> star_space t, (g, s2) \<leftarrow> digits12 s1, s3 \<leftarrow> star_space s2, at_end s3]"

text \<open>\<^verbatim>\<open>BAIR_RE.match\<close>: the number, an optional dash, an optional ordinal letter and the
  four letters U+0431 U+0430 U+0439 U+0440, up to the end of the string\<close>

definition BAIR_RE_match :: "ustring \<Rightarrow> ustring option" where
  "BAIR_RE_match t =
     first_group
       [g. s1 \<leftarrow> star_space t, (g, s2) \<leftarrow> digits12 s1, s3 \<leftarrow> star_space s2,
           s4 \<leftarrow> opt_cls dash s3, s5 \<leftarrow> star_space s4,
           s6 \<leftarrow> opt_cls (\<lambda>c. lower_cp c = 0x440) s5, s7 \<leftarrow> star_space s6,
           s8 \<leftarrow> lit_ci [0x431, 0x430, 0x439, 0x440] s7, s9 \<leftarrow> star_space s8, at_end s9]"

text \<open>\<^verbatim>\<open>BAIR_LOOSE_RE\<close> at one position: after the letters U+0431 U+0430 U+0439 it asks
  for one character of the class of U+0430 and the Latin a, and then for U+0440\<close>

definition BAIR_LOOSE_RE_at :: "ustring \<Rightarrow> ustring option" where
  "BAIR_LOOSE_RE_at t =
     first_group
       [g. (g, s2) \<leftarrow> digits12 t, s3 \<leftarrow> star_space s2,
           s4 \<leftarrow> opt_cls dash s3, s5 \<leftarrow> star_space s4,
           s6 \<leftarrow> opt_cls (\<lambda>c. lower_cp c = 0x440) s5, s7 \<leftarrow> star_space s6,
           s8 \<leftarrow> lit_ci [0x431, 0x430, 0x439] s7,
           s9 \<leftarrow> one_cls (\<lambda>c. lower_cp c = 0x430 \<or> lower_cp c = 0x61) s8,
           s10 \<leftarrow> lit_ci [0x440] s9]"

text \<open>\<^verbatim>\<open>BAIR_LOOSE_RE.search\<close>: the leftmost position with a match\<close>

fun BAIR_LOOSE_RE_search :: "ustring \<Rightarrow> ustring option" where
  "BAIR_LOOSE_RE_search [] = BAIR_LOOSE_RE_at []"
| "BAIR_LOOSE_RE_search (c # cs) =
     (case BAIR_LOOSE_RE_at (c # cs) of
        Some g \<Rightarrow> Some g
      | None \<Rightarrow> BAIR_LOOSE_RE_search cs)"

definition FORBIDDEN :: "(ustring \<times> int) list" where
  "FORBIDDEN = [(ustr ''dorm'', 4), (ustr ''class'', 6)]"

text \<open>\<^verbatim>\<open>(kind, num) in FORBIDDEN\<close> for a string and a hashable value: the tuples compare
  by \<^verbatim>\<open>==\<close>, under which the float 4.0 equals the integer 4.\<close>

definition in_FORBIDDEN :: "ustring \<Rightarrow> pyval \<Rightarrow> bool" where
  "in_FORBIDDEN kind num = list_ex (\<lambda>(k, n). kind = k \<and> py_eq num (PInt n)) FORBIDDEN"

subsection \<open>Normalizer, classifier and extractor\<close>

text \<open>\<^verbatim>\<open>re.sub(r"\s+", " ", s)\<close>; the flag tells that the previous character was white
  space.\<close>

fun collapse_ws :: "bool \<Rightarrow> ustring \<Rightarrow> ustring" where
  "collapse_ws prev [] = []"
| "collapse_ws prev (c # cs) =
     (if isspace c then (if prev then collapse_ws True cs else 0x20 # collapse_ws True cs)
      else c # collapse_ws False cs)"

definition norm :: "ustring \<Rightarrow> ustring" where
  "norm s0 =
     (let s1 = map lower_cp (strip s0);
          s2 = map (\<lambda>c. if c = 0x451 then 0x435 else c) s1;
          s3 = filter (\<lambda>c. c \<notin> set [0x201C, 0x201D, 0x22, 0x27, 0x60]) s2;
          s4 = map (\<lambda>c. if c \<in> set [0x2C, 0x2E, 0x28, 0x29, 0x5B, 0x5D, 0x7B, 0x7D]
                          then 0x20 else c) s3
      in strip (collapse_ws False s4))"

fun starts_with :: "ustring \<Rightarrow> ustring \<Rightarrow> bool" where
  "starts_with [] s = True"
| "starts_with (p # ps) [] = False"
| "starts_with (p # ps) (c # cs) = (p = c \<and> starts_with ps cs)"

text \<open>\<^verbatim>\<open>sub in s\<close> on strings\<close>

fun contains :: "ustring \<Rightarrow> ustring \<Rightarrow> bool" where
  "contains sub [] = (sub = [])"
| "contains sub (c # cs) = (starts_with sub (c # cs) \<or> contains sub cs)"

definition detect_kind :: "ustring \<Rightarrow> ustring option" where
  "detect_kind text =
     (let t = norm text
      in if contains [0x434, 0x43E, 0x442, 0x443, 0x443, 0x440] t \<or> contains (ustr ''dorm'') t
         then Some (ustr ''dorm'')
         else if contains [0x445, 0x438, 0x447, 0x44D, 0x44D, 0x43B] t
               \<or> contains [0x445, 0x438, 0x447, 0x44D, 0x44D, 0x43B, 0x438, 0x439, 0x43D] t
               \<or> contains [0x441, 0x443, 0x440, 0x433, 0x443, 0x443, 0x43B, 0x438, 0x439, 0x43D] t
               \<or> contains (ustr ''academic'') t
         then Some (ustr ''class'')
         else None)"

text \<open>\<^verbatim>\<open>extract_number\<close>; \<^verbatim>\<open>int(m.group(1))\<close> is \<open>py_int_str\<close> of the group, which never
  fails on one or two decimal digits.\<close>

definition extract_number :: "ustring \<Rightarrow> int option" where
  "extract_number text =
     (let t = strip text
      in case NUM_ONLY_RE_match t of
           Some g \<Rightarrow> py_int_str g
         | None \<Rightarrow>
             (case BAIR_RE_match t of
                Some g \<Rightarrow> py_int_str g
              | None \<Rightarrow>
                  (case BAIR_LOOSE_RE_search t of
                     Some g \<Rightarrow> py_int_str g
                   | None \<Rightarrow> None)))"

definition is_list_request :: "ustring \<Rightarrow> bool" where
  "is_list_request text =
     (norm text \<in> set
        [[0x431, 0x430, 0x439, 0x440, 0x448, 0x43B, 0x443, 0x443, 0x434],
         [0x436, 0x430, 0x433, 0x441, 0x430, 0x430, 0x43B, 0x442],
         ustr ''locations'',
         ustr ''list'',
         [0x431, 0x430, 0x439, 0x440, 0x448, 0x438, 0x43B, 0x443, 0x443, 0x434]])"

subsection \<open>\<^verbatim>\<open>load_places\<close>\<close>

text \<open>
  The catalog: the alias index in insertion order (a later write to a key keeps the key's
  place, as a Python dictionary does), the index by kind and number, and the list of
  places.
\<close>

record catalog =
  alias_index :: "(ustring \<times> pyval) list"
  kind_num_index :: "ustring \<times> int \<Rightarrow> pyval option"
  all_places :: "pyval list"

text \<open>The test of line 590 on a record that is a dictionary:
  \<^verbatim>\<open>isinstance(num, int) and (kind, num) in FORBIDDEN\<close>\<close>

definition forbidden_place :: "pyrt \<Rightarrow> (pyval \<times> pyval) list \<Rightarrow> bool" where
  "forbidden_place rt kvs =
     (let kind = py_str rt (py_or (get_default kvs (ustr ''kind'') PNone) (PStr []));
          num = get_default kvs (ustr ''number'') PNone
      in as_int num \<noteq> None \<and> in_FORBIDDEN kind num)"

text \<open>The first loop, lines 584-592\<close>

fun keep_place :: "pyrt \<Rightarrow> pyval \<Rightarrow> bool" where
  "keep_place rt (PDict kvs) = (\<not> forbidden_place rt kvs)"
| "keep_place rt _ = False"

text \<open>One round of the second loop, lines 597-604\<close>

fun index_place ::
  "pyrt \<Rightarrow> pyval \<Rightarrow> (ustring \<times> pyval) list \<times> (ustring \<times> int \<Rightarrow> pyval option)
     \<Rightarrow> exn + (ustring \<times> pyval) list \<times> (ustring \<times> int \<Rightarrow> pyval option)" where
  "index_place rt (PDict kvs) (ai, kni) =
     (case py_iter (py_or (get_default kvs (ustr ''aliases'') (PList [])) (PList [])) of
        Inl e \<Rightarrow> Inl e
      | Inr aliases \<Rightarrow>
          (let ai' = fold (\<lambda>a idx. AList.update (norm (py_str rt a)) (PDict kvs) idx) aliases ai;
               kind = get_default kvs (ustr ''kind'') PNone;
               num = get_default kvs (ustr ''number'') PNone
           in if truthy kind
              then (case as_int num of
                      None \<Rightarrow> Inr (ai', kni)
                    | Some n \<Rightarrow> Inr (ai', kni((py_str rt kind, n) \<mapsto> PDict kvs)))
              else Inr (ai', kni)))"
| "index_place rt _ (ai, kni) = Inl AttributeError"

fun index_places ::
  "pyrt \<Rightarrow> pyval list \<Rightarrow> (ustring \<times> pyval) list \<times> (ustring \<times> int \<Rightarrow> pyval option)
     \<Rightarrow> exn + (ustring \<times> pyval) list \<times> (ustring \<times> int \<Rightarrow> pyval option)" where
  "index_places rt [] acc = Inr acc"
| "index_places rt (p # ps) acc =
     (case index_place rt p acc of Inl e \<Rightarrow> Inl e | Inr acc' \<Rightarrow> index_places rt ps acc')"

text \<open>\<^verbatim>\<open>load_places\<close> on the document that \<^verbatim>\<open>yaml.safe_load\<close> returned\<close>

definition load_places :: "pyrt \<Rightarrow> pyval \<Rightarrow> exn + catalog" where
  "load_places rt data =
     (case py_iter (case data of PDict kvs \<Rightarrow> get_default kvs (ustr ''places'') (PList [])
                    | _ \<Rightarrow> PList []) of
        Inl e \<Rightarrow> Inl e
      | Inr raw_places \<Rightarrow>
          (let places = filter (keep_place rt) raw_places
           in case index_places rt places ([], Map.empty) of
                Inl e \<Rightarrow> Inl e
              | Inr (ai, kni) \<Rightarrow>
                  Inr \<lparr>alias_index = ai, kind_num_index = kni, all_places = places\<rparr>))"

subsection \<open>\<^verbatim>\<open>say_place\<close> and \<^verbatim>\<open>ActionSendLocation.run\<close>\<close>

text \<open>\<^verbatim>\<open>place.get(key, default)\<close>; a value without the method raises.\<close>

fun place_get :: "pyval \<Rightarrow> ustring \<Rightarrow> pyval \<Rightarrow> exn + pyval" where
  "place_get (PDict kvs) k d = Inr (get_default kvs k d)"
| "place_get _ k d = Inl AttributeError"

text \<open>\<^verbatim>\<open>s.strip()\<close> on a value: only a string has the method.\<close>

fun py_strip :: "pyval \<Rightarrow> exn + ustring" where
  "py_strip (PStr s) = Inr (strip s)"
| "py_strip _ = Inl AttributeError"

definition say_place :: "pyrt \<Rightarrow> pyval \<Rightarrow> exn + message" where
  "say_place rt place =
     (case place_get place (ustr ''title'') (PStr [0x411, 0x430, 0x439, 0x440, 0x448, 0x438, 0x43B]) of
        Inl e \<Rightarrow> Inl e
      | Inr title \<Rightarrow>
     (case place_get place (ustr ''url'') PNone of
        Inl e \<Rightarrow> Inl e
      | Inr u \<Rightarrow>
     (case py_strip (py_or u (PStr [])) of
        Inl e \<Rightarrow> Inl e
      | Inr url \<Rightarrow>
          if url \<noteq> [] then Inr (MsgPlace (py_str rt title) url)
          else Inr (MsgPlaceNoLink (py_str rt title)))))"

text \<open>The bulleted titles of the list reply, lines 665-668\<close>

fun list_titles :: "pyrt \<Rightarrow> pyval list \<Rightarrow> exn + ustring list" where
  "list_titles rt [] = Inr []"
| "list_titles rt (p # ps) =
     (case place_get p (ustr ''title'') PNone of
        Inl e \<Rightarrow> Inl e
      | Inr title \<Rightarrow>
          (case list_titles rt ps of
             Inl e \<Rightarrow> Inl e
           | Inr ts \<Rightarrow> Inr (if truthy title then py_str rt title # ts else ts)))"

text \<open>\<^verbatim>\<open>x in {"class", "dorm"}\<close>: hashing an unhashable value raises.\<close>

definition in_kinds :: "pyval \<Rightarrow> exn + bool" where
  "in_kinds v =
     (if \<not> hashable v then Inl TypeError
      else Inr (v = PStr (ustr ''class'') \<or> v = PStr (ustr ''dorm'')))"

text \<open>The loop of lines 699-702: the first alias, in index order, that is not empty and
  occurs in the normalized text.\<close>

fun first_alias_in :: "(ustring \<times> pyval) list \<Rightarrow> ustring \<Rightarrow> pyval option" where
  "first_alias_in [] ntext = None"
| "first_alias_in ((a_norm, p) # rest) ntext =
     (if a_norm \<noteq> [] \<and> contains a_norm ntext then Some p else first_alias_in rest ntext)"

definition say_and_return ::
  "pyrt \<Rightarrow> pyval \<Rightarrow> event list \<Rightarrow> exn + message list \<times> event list" where
  "say_and_return rt place evs =
     (case say_place rt place of Inl e \<Rightarrow> Inl e | Inr m \<Rightarrow> Inr ([m], evs))"

text \<open>Lines 640-661, the turn that continues a disambiguation\<close>

definition choose_place_type ::
  "pyrt \<Rightarrow> catalog \<Rightarrow> ustring \<Rightarrow> pyval \<Rightarrow> pyval \<Rightarrow> exn + message list \<times> event list" where
  "choose_place_type rt cat text pending_number place_type =
     (case (case detect_kind text of
              Some k \<Rightarrow> Inr (Some k)
            | None \<Rightarrow>
                (case in_kinds place_type of
                   Inl e \<Rightarrow> Inl e
                 | Inr b \<Rightarrow> Inr (if b then Some (py_str rt place_type) else None))) of
        Inl e \<Rightarrow> Inl e
      | Inr None \<Rightarrow> Inr ([MsgClarifyKind], [])
      | Inr (Some chosen_kind) \<Rightarrow>
          (let not_found = Inr ([MsgNumberNotFound], [SlotSet ''pending_number'' PNone])
           in case py_int_str (py_str rt pending_number) of
                None \<Rightarrow> not_found
              | Some num \<Rightarrow>
                  if (chosen_kind, num) \<in> set FORBIDDEN
                  then Inr ([MsgNotAvailable],
                            [SlotSet ''pending_number'' PNone,
                             SlotSet ''place_type'' (PStr chosen_kind)])
                  else
                    (case kind_num_index cat (chosen_kind, num) of
                       None \<Rightarrow> not_found
                     | Some place \<Rightarrow>
                         if truthy place
                         then say_and_return rt place
                                [SlotSet ''pending_number'' PNone,
                                 SlotSet ''place_type'' (PStr chosen_kind)]
                         else not_found)))"

text \<open>Lines 672-705, the turn that resolves a text\<close>

definition resolve_text ::
  "pyrt \<Rightarrow> catalog \<Rightarrow> ustring \<Rightarrow> exn + message list \<times> event list" where
  "resolve_text rt cat text =
     (let kind = detect_kind text;
          num = extract_number text;
          by_alias =
            (let ntext = norm text
             in case (case map_of (alias_index cat) ntext of
                        Some place \<Rightarrow> if truthy place then Some place else None
                      | None \<Rightarrow> None) of
                  Some place \<Rightarrow> say_and_return rt place []
                | None \<Rightarrow>
                    (case first_alias_in (alias_index cat) ntext of
                       Some p \<Rightarrow> say_and_return rt p []
                     | None \<Rightarrow> Inr ([MsgPlaceUnknown], [])))
      in case num of
           None \<Rightarrow> by_alias
         | Some n \<Rightarrow>
             if kind = None \<and> (NUM_ONLY_RE_match text \<noteq> None \<or> BAIR_RE_match text \<noteq> None
                                \<or> BAIR_LOOSE_RE_search text \<noteq> None)
             then Inr ([UtterAskPlaceType], [SlotSet ''pending_number'' (PStr (str_int n))])
             else
               (case kind of
                  None \<Rightarrow> by_alias
                | Some k \<Rightarrow>
                    if (k, n) \<in> set FORBIDDEN
                    then Inr ([MsgNotAvailable],
                              [SlotSet ''place_type'' (PStr k), SlotSet ''pending_number'' PNone])
                    else
                      (case (case kind_num_index cat (k, n) of
                               Some place \<Rightarrow> if truthy place then Some place else None
                             | None \<Rightarrow> None) of
                         Some place \<Rightarrow>
                           say_and_return rt place
                             [SlotSet ''place_type'' (PStr k), SlotSet ''pending_number'' PNone]
                       | None \<Rightarrow> Inr ([MsgNumberNotFound], []))))"

definition ActionSendLocation_run ::
  "pyrt \<Rightarrow> catalog \<Rightarrow> tracker \<Rightarrow> exn + message list \<times> event list" where
  "ActionSendLocation_run rt cat tr =
     (case py_strip (py_or (latest_text tr) (PStr [])) of
        Inl e \<Rightarrow> Inl e
      | Inr text \<Rightarrow>
          (let pending_number = get_slot tr ''pending_number'';
               place_type = get_slot tr ''place_type''
           in if latest_intent tr = Some ''choose_place_type'' \<and> truthy pending_number
              then choose_place_type rt cat text pending_number place_type
              else if is_list_request text
              then (case list_titles rt (all_places cat) of
                      Inl e \<Rightarrow> Inl e
                    | Inr ts \<Rightarrow> Inr ([MsgPlaceList ts], []))
              else resolve_text rt cat text))"

subsection \<open>Sample inputs\<close>

definition rt0 :: pyrt where
  "rt0 = \<lparr>str_other = (\<lambda>v. []), float_str = (\<lambda>s. None)\<rparr>"

definition tracker0 :: "slots \<Rightarrow> tracker" where
  "tracker0 s = \<lparr>slot = s, latest_text = PNone, latest_intent = None, sender_id = []\<rparr>"

definition no_slots :: slots where
  "no_slots = (\<lambda>n. PNone)"

definition example_courses :: pyval where
  "example_courses = PList [course_entry 3 95, course_entry 2 68]"

definition example_lines :: "gpa_line list" where
  "example_lines =
     [\<lparr>line_no = 1, line_credit = 3, line_score = 95,
       line_letter = ustr ''A+'', line_points = 4.0\<rparr>,
      \<lparr>line_no = 2, line_credit = 2, line_score = 68,
       line_letter = ustr ''C'', line_points = 2.0\<rparr>]"

definition example_session :: slots where
  "example_session =
     no_slots(''number_of_courses'' := PInt 2,
              ''current_course_index'' := PInt 2,
              ''courses'' := PList [course_entry 3 95])"






text \<open>The texts \<^verbatim>\<open>4\<close>, U+0434 U+043E U+0442 U+0443 U+0443 U+0440 U+0020 U+0431 U+0430 U+0439
  U+0440 (the dormitory) and a sentence with the building phrase \<^verbatim>\<open>5-\<close>U+0440 U+0020 U+0431
  U+0430 U+0439 U+0440 between other words.\<close>

definition text_4 :: ustring where
  "text_4 = [0x34]"

definition text_dorm :: ustring where
  "text_dorm = [0x434, 0x43E, 0x442, 0x443, 0x443, 0x440, 0x20, 0x431, 0x430, 0x439, 0x440]"

definition text_building :: ustring where
  "text_building =
     [0x43C, 0x430, 0x43D, 0x430, 0x439, 0x20, 0x35, 0x2D, 0x440, 0x20, 0x431, 0x430, 0x439,
      0x440, 0x20, 0x445, 0x430, 0x430, 0x43D, 0x430, 0x20, 0x432, 0x44D]"

definition dorm4_items :: "(pyval \<times> pyval) list" where
  "dorm4_items =
     [(PStr (ustr ''kind''), PStr (ustr ''dorm'')),
      (PStr (ustr ''number''), PInt 4),
      (PStr (ustr ''title''), PStr (ustr ''Dorm 4'')),
      (PStr (ustr ''aliases''), PList [PStr (ustr ''fourth dorm'')])]"

definition place_dorm4 :: pyval where
  "place_dorm4 = PDict dorm4_items"

definition class1_items :: "(pyval \<times> pyval) list" where
  "class1_items =
     [(PStr (ustr ''kind''), PStr (ustr ''class'')),
      (PStr (ustr ''number''), PInt 1),
      (PStr (ustr ''title''), PStr (ustr ''Main building'')),
      (PStr (ustr ''aliases''), PList [PStr (ustr ''Main'')])]"

definition place_class1 :: pyval where
  "place_class1 = PDict class1_items"

text \<open>The dormitory record again, its number written as the float 4.0\<close>

definition dorm4_float_items :: "(pyval \<times> pyval) list" where
  "dorm4_float_items =
     [(PStr (ustr ''kind''), PStr (ustr ''dorm'')),
      (PStr (ustr ''number''), PFloat 4),
      (PStr (ustr ''title''), PStr (ustr ''Dorm 4'')),
      (PStr (ustr ''aliases''), PList [PStr (ustr ''fourth dorm'')])]"

definition place_dorm4_float :: pyval where
  "place_dorm4_float = PDict dorm4_float_items"

definition example_locations_float :: pyval where
  "example_locations_float = PDict [(PStr (ustr ''places''), PList [place_dorm4_float])]"

definition example_catalog_float :: catalog where
  "example_catalog_float =
     \<lparr>alias_index = [(ustr ''fourth dorm'', place_dorm4_float)],
      kind_num_index = Map.empty,
      all_places = [place_dorm4_float]\<rparr>"

definition example_locations :: pyval where
  "example_locations = PDict [(PStr (ustr ''places''), PList [place_dorm4, place_class1])]"

definition example_catalog :: catalog where
  "example_catalog =
     \<lparr>alias_index = [(ustr ''main'', place_class1)],
      kind_num_index = [(ustr ''class'', 1) \<mapsto> place_class1],
      all_places = [place_class1]\<rparr>"

section \<open>The invariant of catalog construction\<close>

text \<open>Every record in the two indices is one of the set \<open>S\<close>, and no forbidden pair is a
  key of the index by kind and number.\<close>

definition cat_inv ::
  "pyval set \<Rightarrow> (ustring \<times> pyval) list \<times> (ustring \<times> int \<Rightarrow> pyval option) \<Rightarrow> bool" where
  "cat_inv S acc \<longleftrightarrow>
     (\<forall>a p. (a, p) \<in> set (fst acc) \<longrightarrow> p \<in> S) \<and>
     (\<forall>k p. snd acc k = Some p \<longrightarrow> p \<in> S) \<and>
     (\<forall>k \<in> set FORBIDDEN. snd acc k = None)"

section \<open>Conversions\<close>

lemma float_limit_large: "1000000 < float_limit"
  by (simp add: float_limit_def)

text \<open>The integers of the examples are far from the overflow of \<^verbatim>\<open>float\<close>.\<close>

lemma py_float_small [simp]:
  "- 1000000 \<le> i \<Longrightarrow> i \<le> 1000000 \<Longrightarrow> py_float rt (PInt i) = Inr (of_int i)"
  using float_limit_large by (simp add: py_float.simps(2))

lemma py_float_overflow: "py_float rt (PInt (10 ^ 400)) = Inl OverflowError"
  by (simp add: py_float.simps(2) float_limit_def)

lemma py_eq_str [simp]: "py_eq (PStr a) (PStr b) = (a = b)"
  by (simp add: py_eq_def)

lemma ustr_inject [simp]: "(ustr a = ustr b) = (a = b)"
  by (simp add: ustr_def inj_map_eq_map inj_on_def)

lemma ustr_nonempty [simp]: "ustr (c # cs) \<noteq> []"
  by (simp add: ustr_def)

section \<open>Properties of the GPA accumulator\<close>

subsection \<open>The breakpoint table\<close>

text \<open>On a whole-number score the function follows the table: 90 and above is A+, 85 to
  89 is A-, and so on down to F below 60.\<close>

lemma score_to_grade_whole:
  "score_to_grade (of_int n) =
     (if 90 \<le> n then mkGradeMap ''A+'' 4.0
      else if 85 \<le> n then mkGradeMap ''A-'' 3.7
      else if 80 \<le> n then mkGradeMap ''B+'' 3.3
      else if 75 \<le> n then mkGradeMap ''B'' 3.0
      else if 70 \<le> n then mkGradeMap ''C-'' 1.9
      else if 65 \<le> n then mkGradeMap ''C'' 2.0
      else if 60 \<le> n then mkGradeMap ''D'' 1.0
      else mkGradeMap ''F'' 0.0)"
proof -
  have le: "\<And>k::int. (of_int n \<le> (of_int k :: real)) = (n \<le> k)"
    and ge: "\<And>k::int. ((of_int k :: real) \<le> of_int n) = (k \<le> n)"
    by simp_all
  have "score_to_grade (of_int n) =
     (if (of_int (90::int) :: real) \<le> of_int n then mkGradeMap ''A+'' 4.0
      else if (of_int (85::int) :: real) \<le> of_int n \<and> of_int n \<le> (of_int (89::int) :: real)
        then mkGradeMap ''A-'' 3.7
      else if (of_int (80::int) :: real) \<le> of_int n \<and> of_int n \<le> (of_int (84::int) :: real)
        then mkGradeMap ''B+'' 3.3
      else if (of_int (75::int) :: real) \<le> of_int n \<and> of_int n \<le> (of_int (79::int) :: real)
        then mkGradeMap ''B'' 3.0
      else if (of_int (70::int) :: real) \<le> of_int n \<and> of_int n \<le> (of_int (74::int) :: real)
        then mkGradeMap ''C-'' 1.9
      else if (of_int (65::int) :: real) \<le> of_int n \<and> of_int n \<le> (of_int (69::int) :: real)
        then mkGradeMap ''C'' 2.0
      else if (of_int (60::int) :: real) \<le> of_int n \<and> of_int n \<le> (of_int (64::int) :: real)
        then mkGradeMap ''D'' 1.0
      else mkGradeMap ''F'' 0.0)"
    by (simp add: score_to_grade_def)
  also have "\<dots> =
     (if 90 \<le> n then mkGradeMap ''A+'' 4.0
      else if 85 \<le> n then mkGradeMap ''A-'' 3.7
      else if 80 \<le> n then mkGradeMap ''B+'' 3.3
      else if 75 \<le> n then mkGradeMap ''B'' 3.0
      else if 70 \<le> n then mkGradeMap ''C-'' 1.9
      else if 65 \<le> n then mkGradeMap ''C'' 2.0
      else if 60 \<le> n then mkGradeMap ''D'' 1.0
      else mkGradeMap ''F'' 0.0)"
    unfolding le ge by auto
  finally show ?thesis .
qed

text \<open>
  Claim C1.  The bands have whole-number bounds on both sides, so a score strictly between
  two bands matches none of them: the score 74.9, which the score validation accepts,
  falls through \<^verbatim>\<open>70 <= s <= 74\<close> and every later test and is graded F with 0 quality
  points, not C- with 1.9.
\<close>

theorem score_to_grade_between_bands:
  "score_to_grade (749 / 10) = mkGradeMap ''F'' 0"
  by (simp add: score_to_grade_def)

subsection \<open>The course count\<close>

text \<open>
  Claim C9, as stated, fails: the input 50.9 is not between 1 and 50, and
  \<^verbatim>\<open>int(float(slot_value))\<close> truncates it to 50, which is accepted.
\<close>

theorem count_accepts_truncated:
  "\<not> (509 / 10 \<le> (50 :: real)) \<and>
   validate_number_of_courses rt0 (PFloat (509 / 10)) =
     ([], [(''number_of_courses'', PInt 50),
           (''current_course_index'', PInt 1),
           (''courses'', PList [])])"
  by (simp add: validate_number_of_courses_def py_trunc_def)

text \<open>
  Claim C9, amended.  \<^verbatim>\<open>validate_number_of_courses\<close> clears the slot with a corrective
  prompt when the input does not convert to a number, and when the number, truncated toward
  zero, is not from 1 to 50; every other input sets the course count to the truncated
  number, the course index to 1 and the course list to the empty list.
\<close>

theorem validate_number_of_courses_spec:
  "validate_number_of_courses rt v =
     (case py_float rt v of
        Inl e \<Rightarrow> ([MsgEnterCount], [(''number_of_courses'', PNone)])
      | Inr f \<Rightarrow>
          if 1 \<le> py_trunc f \<and> py_trunc f \<le> 50
          then ([], [(''number_of_courses'', PInt (py_trunc f)),
                     (''current_course_index'', PInt 1),
                     (''courses'', PList [])])
          else ([MsgCountRange], [(''number_of_courses'', PNone)]))"
  by (simp add: validate_number_of_courses_def Let_def split: sum.splits)

theorem validate_number_of_courses_spec_witness:
  "validate_number_of_courses rt0 (PInt 2) =
     ([], [(''number_of_courses'', PInt 2), (''current_course_index'', PInt 1),
           (''courses'', PList [])]) \<and>
   validate_number_of_courses rt0 (PInt 51) = ([MsgCountRange], [(''number_of_courses'', PNone)]) \<and>
   validate_number_of_courses rt0 PNone = ([MsgEnterCount], [(''number_of_courses'', PNone)])"
  using validate_number_of_courses_spec [of rt0 "PInt 2"]
    validate_number_of_courses_spec [of rt0 "PInt 51"]
    validate_number_of_courses_spec [of rt0 PNone]
  by (simp add: py_trunc_def)

subsection \<open>Finalization\<close>

lemma gpa_run_events:
  "ActionCalculateGpa_run rt tr = Inr (msgs, evs) \<Longrightarrow> evs = gpa_reset"
  by (auto simp: ActionCalculateGpa_run_def Let_def split: if_splits sum.splits prod.splits)

lemma gpa_reset_slots:
  "apply_events gpa_reset s =
     s(''number_of_courses'' := PNone, ''current_course_index'' := PInt 1,
       ''current_credit'' := PNone, ''current_score'' := PNone, ''courses'' := PList [])"
  by (simp add: gpa_reset_def)

lemma gpa_run_example:
  "get_slot tr ''courses'' = example_courses \<Longrightarrow>
   ActionCalculateGpa_run rt tr = Inr ([MsgGpaReport example_lines 5 (16 / 5)], gpa_reset)"
  by (simp add: ActionCalculateGpa_run_def example_courses_def course_entry_def py_or_def
      score_to_grade_def mkGradeMap_def example_lines_def py_eq_def ustr_def)

text \<open>
  Claim C10.  When the course list is missing or empty, finalization utters the restart
  prompt alone, with no breakdown and no GPA, and returns the reset events: the course
  count and the current credit and score are cleared, the index is 1 and the list is empty.
  It is the reset of every finalization that returns.
\<close>

theorem gpa_finalize_empty:
  assumes "get_slot tr ''courses'' = PNone \<or> get_slot tr ''courses'' = PList []"
  shows "ActionCalculateGpa_run rt tr = Inr ([MsgNoCourses], gpa_reset) \<and>
         apply_events gpa_reset (slot tr) =
           (slot tr)(''number_of_courses'' := PNone, ''current_course_index'' := PInt 1,
             ''current_credit'' := PNone, ''current_score'' := PNone, ''courses'' := PList []) \<and>
         (\<forall>tr' msgs evs. ActionCalculateGpa_run rt tr' = Inr (msgs, evs) \<longrightarrow> evs = gpa_reset)"
proof -
  have "ActionCalculateGpa_run rt tr = Inr ([MsgNoCourses], gpa_reset)"
    using assms by (auto simp: ActionCalculateGpa_run_def py_or_def)
  then show ?thesis
    using gpa_reset_slots [of "slot tr"] gpa_run_events [of rt] by blast
qed

theorem gpa_finalize_empty_witness:
  "get_slot (tracker0 no_slots) ''courses'' = PNone \<and>
   ActionCalculateGpa_run rt0 (tracker0 no_slots) = Inr ([MsgNoCourses], gpa_reset) \<and>
   get_slot (tracker0 (no_slots(''courses'' := PList []))) ''courses'' = PList [] \<and>
   ActionCalculateGpa_run rt0 (tracker0 (no_slots(''courses'' := PList []))) =
     Inr ([MsgNoCourses], gpa_reset)"
proof -
  have a: "get_slot (tracker0 no_slots) ''courses'' = PNone"
    by (simp add: get_slot_def tracker0_def no_slots_def)
  have b: "get_slot (tracker0 (no_slots(''courses'' := PList []))) ''courses'' = PList []"
    by (simp add: get_slot_def tracker0_def)
  from a b gpa_finalize_empty [of "tracker0 no_slots" rt0]
    gpa_finalize_empty [of "tracker0 (no_slots(''courses'' := PList []))" rt0]
  show ?thesis by simp
qed

subsection \<open>The course list stays well-formed\<close>

lemma wf_entry_course_entry:
  "wf_entry (course_entry c s) \<longleftrightarrow> 0 < c \<and> 0 \<le> s \<and> s \<le> 100"
  by (simp add: wf_entry_def course_entry_def py_eq_def ustr_def)

lemma count_preserves:
  assumes "validate_number_of_courses rt v = (msgs, upd)"
    and "wf_courses (s ''courses'')" and "credit_ok (s ''current_credit'')"
  shows "wf_courses (apply_update upd s ''courses'') \<and>
         credit_ok (apply_update upd s ''current_credit'')"
  using assms
  by (auto simp: validate_number_of_courses_def apply_update_def Let_def wf_courses_def
      split: sum.splits if_splits)

lemma credit_preserves:
  assumes "validate_current_credit rt v = (msgs, upd)"
    and "wf_courses (s ''courses'')" and "credit_ok (s ''current_credit'')"
  shows "wf_courses (apply_update upd s ''courses'') \<and>
         credit_ok (apply_update upd s ''current_credit'')"
  using assms
  by (auto simp: validate_current_credit_def apply_update_def Let_def credit_ok_def
      split: sum.splits if_splits)

text \<open>The step that appends: with a validated credit in the slot, the appended entry has
  that credit and the validated score.\<close>

lemma score_preserves:
  assumes "validate_current_score rt v tr = Inr (msgs, upd)" and "slot tr = s"
    and "wf_courses (s ''courses'')" and "credit_ok (s ''current_credit'')"
    and "s ''current_credit'' \<noteq> PNone"
  shows "wf_courses (apply_update upd s ''courses'') \<and>
         credit_ok (apply_update upd s ''current_credit'')"
proof -
  from assms(4,5) obtain c where c: "s ''current_credit'' = PFloat c" "0 < c" "c \<le> 30"
    by (auto simp: credit_ok_def split: pyval.splits)
  have old: "list_all wf_entry
      (case py_or (s ''courses'') (PList []) of PList xs \<Rightarrow> xs | _ \<Rightarrow> [])"
    using assms(3) by (auto simp: wf_courses_def py_or_def split: pyval.splits)
  have cr: "py_or (PFloat c) (PInt 0) = PFloat c"
    using c by (simp add: py_or_def)
  show ?thesis
    using assms(1,2,3) c old cr
    by (auto simp: validate_current_score_def get_slot_def apply_update_def Let_def
        wf_courses_def credit_ok_def wf_entry_course_entry
        split: sum.splits if_splits)
qed

lemma finalize_preserves:
  assumes "ActionCalculateGpa_run rt tr = Inr (msgs, evs)"
  shows "wf_courses (apply_events evs s ''courses'') \<and>
         credit_ok (apply_events evs s ''current_credit'')"
  using gpa_run_events [OF assms]
  by (simp add: gpa_reset_def wf_courses_def credit_ok_def)

lemma reachable_invariant:
  "reachable rt s \<Longrightarrow> wf_courses (s ''courses'') \<and> credit_ok (s ''current_credit'')"
proof (induction rule: reachable.induct)
  case start
  show ?case by (simp add: wf_courses_def credit_ok_def)
next
  case (count s v msgs upd)
  then show ?case using count_preserves by blast
next
  case (credit s v msgs upd)
  then show ?case using credit_preserves by blast
next
  case (score s tr v msgs upd)
  from score(2) have "s ''current_credit'' \<noteq> PNone"
    by (auto simp: requested_slot_def split: if_splits)
  with score show ?case using score_preserves by blast
next
  case (finalize s tr msgs evs)
  then show ?case using finalize_preserves by blast
qed

lemma example_session_reachable: "reachable rt0 example_session"
proof -
  have r0: "reachable rt0 no_slots"
    unfolding no_slots_def by (rule reachable.start)
  let ?s1 = "no_slots(''number_of_courses'' := PInt 2, ''current_course_index'' := PInt 1,
                ''courses'' := PList [])"
  have v1: "validate_number_of_courses rt0 (PInt 2) =
      ([], [(''number_of_courses'', PInt 2), (''current_course_index'', PInt 1),
            (''courses'', PList [])])"
    by (simp add: validate_number_of_courses_def py_trunc_def)
  have q0: "requested_slot no_slots = Some ''number_of_courses''"
    by (simp add: requested_slot_def no_slots_def)
  have r1: "reachable rt0 ?s1"
    using reachable.count [OF r0 q0 v1] by (simp add: apply_update_def)
  let ?s2 = "?s1(''current_credit'' := PFloat 3)"
  have v2: "validate_current_credit rt0 (PInt 3) = ([], [(''current_credit'', PFloat 3)])"
    by (simp add: validate_current_credit_def)
  have q1: "requested_slot ?s1 = Some ''current_credit''"
    by (simp add: requested_slot_def no_slots_def)
  have r2: "reachable rt0 ?s2"
    using reachable.credit [OF r1 q1 v2] by (simp add: apply_update_def)
  have q2: "requested_slot ?s2 = Some ''current_score''"
    by (simp add: requested_slot_def no_slots_def)
  have v3: "validate_current_score rt0 (PInt 95) (tracker0 ?s2) =
      Inr ([], [(''courses'', PList [course_entry 3 95]),
                (''current_course_index'', PInt 2),
                (''current_credit'', PNone), (''current_score'', PNone)])"
    by (simp add: validate_current_score_def get_slot_def tracker0_def py_or_def
        py_trunc_def no_slots_def)
  have t: "slot (tracker0 ?s2) = ?s2"
    by (simp add: tracker0_def)
  have "reachable rt0 (apply_update [(''courses'', PList [course_entry 3 95]),
                (''current_course_index'', PInt 2),
                (''current_credit'', PNone), (''current_score'', PNone)] ?s2)"
    by (rule reachable.score [OF r2 q2 t v3])
  moreover have "apply_update [(''courses'', PList [course_entry 3 95]),
                (''current_course_index'', PInt 2),
                (''current_credit'', PNone), (''current_score'', PNone)] ?s2 = example_session"
    by (auto simp: apply_update_def example_session_def no_slots_def fun_eq_iff)
  ultimately show ?thesis by simp
qed

lemma gpa_loop_readable:
  "list_all (readable_entry rt) cs \<Longrightarrow> \<exists>r. gpa_loop rt cs i tc tp lines = Inr r"
proof (induction cs arbitrary: i tc tp lines)
  case Nil
  show ?case by simp
next
  case (Cons c cs)
  from Cons.prems have c: "readable_entry rt c" and cs: "list_all (readable_entry rt) cs"
    by simp_all
  from c obtain crv cr scv sc where
    "py_getitem c (PStr (ustr ''credit'')) = Inr crv" "py_float rt crv = Inr cr"
    "py_getitem c (PStr (ustr ''score'')) = Inr scv" "py_float rt scv = Inr sc"
    by (auto simp: readable_entry_def split: sum.splits)
  then show ?case
    using Cons.IH [OF cs] by (simp add: Let_def)
qed

text \<open>Finalization returns on every readable course list, and then with the reset.\<close>

lemma gpa_run_returns:
  assumes "readable_courses rt (get_slot tr ''courses'')"
  shows "\<exists>report. ActionCalculateGpa_run rt tr = Inr (report, gpa_reset)"
proof (cases "truthy (get_slot tr ''courses'')")
  case False
  then show ?thesis
    by (simp add: ActionCalculateGpa_run_def py_or_def)
next
  case True
  with assms obtain cs where it: "py_iter (get_slot tr ''courses'') = Inr cs"
    and r: "list_all (readable_entry rt) cs"
    by (auto simp: readable_courses_def split: sum.splits)
  from gpa_loop_readable [OF r, of 1 0 0 "[]"]
  obtain total_credits total_points lines where
    "gpa_loop rt cs 1 0 0 [] = Inr (total_credits, total_points, lines)"
    by (metis prod_cases3)
  with True it show ?thesis
    by (simp add: ActionCalculateGpa_run_def py_or_def Let_def)
qed

lemma wf_entry_readable:
  assumes "wf_entry e"
  shows "readable_entry rt e"
proof (cases "py_getitem e (PStr (ustr ''credit''))")
  case (Inl x)
  with assms show ?thesis by (simp add: wf_entry_def)
next
  case a: (Inr v)
  with assms obtain c where c: "v = PFloat c"
    by (cases v) (simp_all add: wf_entry_def)
  show ?thesis
  proof (cases "py_getitem e (PStr (ustr ''score''))")
    case (Inl x)
    with assms a c show ?thesis by (simp add: wf_entry_def)
  next
    case b: (Inr w)
    with assms a c obtain s where "w = PFloat s"
      by (cases w) (simp_all add: wf_entry_def)
    with a b c show ?thesis by (simp add: readable_entry_def)
  qed
qed

lemma wf_courses_readable: "wf_courses v \<Longrightarrow> readable_courses rt v"
  by (cases v) (auto simp: wf_courses_def readable_courses_def list_all_iff wf_entry_readable)

lemma reachable_run_returns:
  assumes "reachable rt (slot tr)"
  shows "\<exists>report. ActionCalculateGpa_run rt tr = Inr (report, gpa_reset)"
proof -
  from reachable_invariant [OF assms] have "wf_courses (get_slot tr ''courses'')"
    by (simp add: get_slot_def)
  then show ?thesis
    by (intro gpa_run_returns wf_courses_readable)
qed

lemma example_courses_readable: "readable_courses rt example_courses"
  by (intro wf_courses_readable)
     (simp add: example_courses_def wf_courses_def wf_entry_course_entry)

text \<open>
  Claim C5, as stated, fails: on the courses (3, 95) and (2, 68) the report does not carry
  the GPA 2.80.
\<close>

theorem gpa_example_not_2_80:
  "ActionCalculateGpa_run rt0 (tracker0 (no_slots(''courses'' := example_courses))) \<noteq>
     Inr ([MsgGpaReport example_lines 5 (280 / 100)], gpa_reset)"
  by (simp add: gpa_run_example get_slot_def tracker0_def)

text \<open>
  Claim C5, amended in its number only.  Finalizing a session with the courses (credit 3,
  score 95) and (credit 2, score 68) produces the letters A+ (4.0) and C (2.0), the total
  credit 5 and the GPA (3 * 4.0 + 2 * 2.0) / 5 = 16 / 5 = 3.20; and after any finalization
  all session fields are reset: the run returns on every course list it can read, so on
  every list the form builds and in every state the form reaches, and whenever it returns
  its events are the reset, after which the course count is cleared, the index is 1, the
  current credit and score are cleared and the course list is empty.
\<close>

theorem gpa_finalize:
  "(get_slot tr ''courses'' = example_courses \<longrightarrow>
      ActionCalculateGpa_run rt tr = Inr ([MsgGpaReport example_lines 5 (16 / 5)], gpa_reset)) \<and>
   (readable_courses rt (get_slot tr ''courses'') \<longrightarrow>
      (\<exists>report. ActionCalculateGpa_run rt tr = Inr (report, gpa_reset))) \<and>
   (reachable rt (slot tr) \<longrightarrow>
      (\<exists>report. ActionCalculateGpa_run rt tr = Inr (report, gpa_reset))) \<and>
   (ActionCalculateGpa_run rt tr = Inr (msgs, evs) \<longrightarrow>
      evs = gpa_reset \<and>
      apply_events evs (slot tr) =
        (slot tr)(''number_of_courses'' := PNone, ''current_course_index'' := PInt 1,
          ''current_credit'' := PNone, ''current_score'' := PNone, ''courses'' := PList []))"
  using gpa_run_example [of tr rt] gpa_run_events [of rt tr msgs evs]
    gpa_reset_slots [of "slot tr"] gpa_run_returns [of rt tr] reachable_run_returns [of rt tr]
  by auto

theorem gpa_finalize_witness:
  "get_slot (tracker0 (no_slots(''courses'' := example_courses))) ''courses'' = example_courses \<and>
   readable_courses rt0 (get_slot (tracker0 (no_slots(''courses'' := example_courses))) ''courses'') \<and>
   ActionCalculateGpa_run rt0 (tracker0 (no_slots(''courses'' := example_courses))) =
     Inr ([MsgGpaReport example_lines 5 (16 / 5)], gpa_reset) \<and>
   apply_events gpa_reset (no_slots(''courses'' := example_courses)) ''courses'' = PList [] \<and>
   apply_events gpa_reset (no_slots(''courses'' := example_courses)) ''current_course_index'' = PInt 1 \<and>
   reachable rt0 (slot (tracker0 example_session)) \<and>
   (\<exists>report. ActionCalculateGpa_run rt0 (tracker0 example_session) = Inr (report, gpa_reset))"
proof -
  let ?tr = "tracker0 (no_slots(''courses'' := example_courses))"
  have g: "get_slot ?tr ''courses'' = example_courses"
    by (simp add: get_slot_def tracker0_def)
  have s: "slot ?tr = no_slots(''courses'' := example_courses)"
    by (simp add: tracker0_def)
  have r: "readable_courses rt0 (get_slot ?tr ''courses'')"
    unfolding g by (rule example_courses_readable)
  have e: "reachable rt0 (slot (tracker0 example_session))"
    using example_session_reachable by (simp add: tracker0_def)
  have a: "ActionCalculateGpa_run rt0 ?tr =
             Inr ([MsgGpaReport example_lines 5 (16 / 5)], gpa_reset)"
    using gpa_finalize [of ?tr rt0] g by blast
  have b: "apply_events gpa_reset (slot ?tr) =
        (slot ?tr)(''number_of_courses'' := PNone, ''current_course_index'' := PInt 1,
          ''current_credit'' := PNone, ''current_score'' := PNone, ''courses'' := PList [])"
    using gpa_finalize [of ?tr rt0 "[MsgGpaReport example_lines 5 (16 / 5)]" gpa_reset] a
    by blast
  have c: "\<exists>report. ActionCalculateGpa_run rt0 (tracker0 example_session) =
             Inr (report, gpa_reset)"
    using gpa_finalize [of "tracker0 example_session" rt0] e by blast
  from b have "apply_events gpa_reset (no_slots(''courses'' := example_courses)) ''courses'' =
      PList []"
    and "apply_events gpa_reset (no_slots(''courses'' := example_courses))
      ''current_course_index'' = PInt 1"
    unfolding s by simp_all
  with g r a e c show ?thesis by blast
qed

text \<open>
  Claim C8.  In every session state that the form reaches, every entry of the course list
  has a credit above 0 and a score from 0 to 100: the score validation, the one step that
  appends, runs with a validated credit in the slot, and the other steps leave the list as
  it is or empty it.
\<close>

theorem courses_well_formed:
  "reachable rt s \<Longrightarrow> wf_courses (s ''courses'')"
  using reachable_invariant by blast

theorem courses_well_formed_witness:
  "reachable rt0 example_session \<and> example_session ''courses'' = PList [course_entry 3 95] \<and>
   wf_courses (example_session ''courses'')"
proof -
  have w: "wf_courses (example_session ''courses'')"
    using courses_well_formed [OF example_session_reachable] .
  have e: "example_session ''courses'' = PList [course_entry 3 95]"
    by (simp add: example_session_def)
  show ?thesis using example_session_reachable w e by blast
qed

section \<open>Properties of the tuition calculator\<close>














section \<open>Properties of the location helpers\<close>

subsection \<open>The number extractor\<close>

lemmas pattern_defs =
  strip_def isspace_def whitespace_def NUM_ONLY_RE_match_def BAIR_RE_match_def
  BAIR_LOOSE_RE_at_def first_group_def isdigit_def decimal_def nd_starts_def dash_def
  lower_cp_def at_end_def py_int_str_def int_body_def

lemmas norm_defs = norm_def strip_def isspace_def whitespace_def lower_cp_def ustr_def

lemma whitespace_no_digit: "list_all (\<lambda>c. decimal c = None) whitespace"
  by (simp add: whitespace_def decimal_def nd_starts_def)

lemma space_not_digit: "isspace c \<Longrightarrow> decimal c = None"
  using whitespace_no_digit by (simp add: isspace_def list_all_iff)

lemma digit_not_space: "decimal c = Some x \<Longrightarrow> \<not> isspace c"
  using space_not_digit by fastforce

lemma sign_not_digit: "decimal 0x2D = None" "decimal 0x2B = None" "decimal 0x5F = None"
  by (simp_all add: decimal_def nd_starts_def)

lemma strip_padded:
  assumes "list_all isspace ws1" and "list_all isspace ws2"
    and "ds \<noteq> []" and "\<not> isspace (hd ds)" and "\<not> isspace (last ds)"
  shows "strip (ws1 @ ds @ ws2) = ds"
proof -
  have a: "dropWhile isspace (ws1 @ ds @ ws2) = ds @ ws2"
    using assms(1,3,4) by (cases ds) (simp_all add: dropWhile_append2 list_all_iff)
  have "\<And>x. x \<in> set (rev ws2) \<Longrightarrow> isspace x"
    using assms(2) by (simp add: list_all_iff)
  then have "dropWhile isspace (rev ws2 @ rev ds) = dropWhile isspace (rev ds)"
    by (rule dropWhile_append2)
  also have "\<dots> = rev ds"
    using assms(3,5) by (cases "rev ds") (auto simp: last_rev [symmetric] hd_rev)
  finally show ?thesis
    by (simp add: strip_def a)
qed

lemma num_only_one:
  "decimal a = Some x \<Longrightarrow> NUM_ONLY_RE_match [a] = Some [a]"
  by (simp add: NUM_ONLY_RE_match_def first_group_def isdigit_def digit_not_space at_end_def)

lemma num_only_two:
  "decimal a = Some x \<Longrightarrow> decimal b = Some y \<Longrightarrow> NUM_ONLY_RE_match [a, b] = Some [a, b]"
  by (simp add: NUM_ONLY_RE_match_def first_group_def isdigit_def digit_not_space at_end_def)

text \<open>\<^verbatim>\<open>int(m.group(1))\<close> does not raise: one or two decimal digits convert.\<close>

lemma int_one:
  assumes "decimal a = Some x"
  shows "py_int_str [a] = Some (int x)"
proof -
  have "a \<noteq> 0x2D" "a \<noteq> 0x2B" using assms sign_not_digit by auto
  moreover have "strip [a] = [a]"
    using digit_not_space [OF assms] by (simp add: strip_def)
  ultimately show ?thesis
    using assms by (simp add: py_int_str_def int_body_def)
qed

lemma int_two:
  assumes "decimal a = Some x" and "decimal b = Some y"
  shows "py_int_str [a, b] = Some (int (10 * x + y))"
proof -
  have "a \<noteq> 0x2D" "a \<noteq> 0x2B" "b \<noteq> 0x5F" using assms sign_not_digit by auto
  moreover have "strip [a, b] = [a, b]"
    using digit_not_space [OF assms(1)] digit_not_space [OF assms(2)] by (simp add: strip_def)
  ultimately show ?thesis
    using assms by (simp add: py_int_str_def int_body_def)
qed

text \<open>The first half of claim C2 holds: a text that is one or two decimal digits between
  white space yields the number they denote.\<close>

lemma extract_bare_number:
  assumes "list_all isspace ws1" and "list_all isspace ws2"
    and "decimal a = Some x" and "decimal b = Some y"
  shows "extract_number (ws1 @ [a] @ ws2) = Some (int x)"
    and "extract_number (ws1 @ [a, b] @ ws2) = Some (int (10 * x + y))"
proof -
  have s1: "strip (ws1 @ [a] @ ws2) = [a]"
    using strip_padded [OF assms(1,2), of "[a]"] digit_not_space [OF assms(3)] by simp
  have s2: "strip (ws1 @ [a, b] @ ws2) = [a, b]"
    using strip_padded [OF assms(1,2), of "[a, b]"] digit_not_space [OF assms(3)]
      digit_not_space [OF assms(4)] by simp
  show "extract_number (ws1 @ [a] @ ws2) = Some (int x)"
    unfolding extract_number_def s1 Let_def
    by (simp add: num_only_one [OF assms(3)] int_one [OF assms(3)])
  show "extract_number (ws1 @ [a, b] @ ws2) = Some (int (10 * x + y))"
    unfolding extract_number_def s2 Let_def
    by (simp add: num_only_two [OF assms(3,4)] int_two [OF assms(3,4)])
qed

text \<open>The building phrase alone is found by the anchored pattern \<^verbatim>\<open>BAIR_RE\<close>.\<close>

lemma extract_phrase_alone:
  "extract_number [0x35, 0x2D, 0x440, 0x20, 0x431, 0x430, 0x439, 0x440] = Some 5"
  by (simp add: extract_number_def pattern_defs)

text \<open>
  Claim C2.  The loose pattern asks for one more letter between U+0439 and U+0440 than the
  building word has, so it does not find the phrase that \<^verbatim>\<open>BAIR_RE\<close> finds: on a sentence
  with the phrase \<^verbatim>\<open>5-\<close>U+0440 U+0020 U+0431 U+0430 U+0439 U+0440 between other words,
  \<^verbatim>\<open>BAIR_LOOSE_RE.search\<close> finds nothing and \<^verbatim>\<open>extract_number\<close> returns \<^verbatim>\<open>None\<close>,
  not 5.
\<close>

theorem extract_number_phrase_in_sentence:
  "BAIR_LOOSE_RE_search text_building = None \<and> extract_number text_building = None"
  by (simp add: text_building_def extract_number_def pattern_defs)

theorem extract_number_phrase_in_sentence_witness:
  "extract_number text_building \<noteq> Some 5"
  using extract_number_phrase_in_sentence by simp

subsection \<open>Catalog construction\<close>

lemma update_values:
  "(a, q) \<in> set (AList.update k v al) \<Longrightarrow> q = v \<or> (a, q) \<in> set al"
  by (induction al) (auto split: if_splits)

lemma fold_update_values:
  "(a, q) \<in> set (fold (\<lambda>x idx. AList.update (f x) v idx) xs al) \<Longrightarrow>
   q = v \<or> (a, q) \<in> set al"
proof (induction xs arbitrary: al)
  case Nil
  then show ?case by simp
next
  case (Cons x xs)
  from Cons.IH [of "AList.update (f x) v al"] Cons.prems
  show ?case by (auto dest: update_values)
qed

text \<open>The key under which a kept record is indexed is not forbidden: the filter tested
  the same rendering of the same kind with the same number.\<close>

text \<open>On a value that passes \<^verbatim>\<open>isinstance(num, int)\<close>, membership in \<^verbatim>\<open>FORBIDDEN\<close> is
  membership of the pair with that integer.\<close>

lemma in_FORBIDDEN_int:
  "as_int v = Some n \<Longrightarrow> in_FORBIDDEN k v = ((k, n) \<in> set FORBIDDEN)"
  by (cases v) (auto simp: in_FORBIDDEN_def FORBIDDEN_def py_eq_def split: if_splits)

lemma kept_key_not_forbidden:
  assumes "keep_place rt (PDict kvs)"
    and "truthy (get_default kvs (ustr ''kind'') PNone)"
    and "as_int (get_default kvs (ustr ''number'') PNone) = Some n"
  shows "(py_str rt (get_default kvs (ustr ''kind'') PNone), n) \<notin> set FORBIDDEN"
  using assms in_FORBIDDEN_int [OF assms(3)]
  by (simp add: forbidden_place_def py_or_def Let_def)

lemma index_place_inv:
  assumes "keep_place rt p" and "p \<in> S" and "cat_inv S acc"
    and "index_place rt p acc = Inr acc'"
  shows "cat_inv S acc'"
proof -
  from assms(1) obtain kvs where p: "p = PDict kvs"
    by (cases p) simp_all
  obtain ai kni where acc: "acc = (ai, kni)"
    by (cases acc)
  let ?kind = "get_default kvs (ustr ''kind'') PNone"
  let ?num = "get_default kvs (ustr ''number'') PNone"
  from assms(4) obtain aliases where
    it: "py_iter (py_or (get_default kvs (ustr ''aliases'') (PList [])) (PList [])) = Inr aliases"
    unfolding p acc by (auto split: sum.splits)
  let ?ai' = "fold (\<lambda>a idx. AList.update (norm (py_str rt a)) (PDict kvs) idx) aliases ai"
  have ai': "\<And>a q. (a, q) \<in> set ?ai' \<Longrightarrow> q \<in> S"
  proof -
    fix a q assume "(a, q) \<in> set ?ai'"
    then have "q = PDict kvs \<or> (a, q) \<in> set ai"
      by (rule fold_update_values)
    then show "q \<in> S"
      using assms(2,3) unfolding p acc cat_inv_def by auto
  qed
  show ?thesis
  proof (cases "truthy ?kind")
    case False
    with assms(4) it have "acc' = (?ai', kni)"
      unfolding p acc by (simp add: Let_def)
    then show ?thesis
      using ai' assms(3) unfolding acc cat_inv_def by auto
  next
    case True
    show ?thesis
    proof (cases "as_int ?num")
      case None
      with True assms(4) it have "acc' = (?ai', kni)"
        unfolding p acc by (simp add: Let_def)
      then show ?thesis
        using ai' assms(3) unfolding acc cat_inv_def by auto
    next
      case (Some n)
      with True assms(4) it
      have a': "acc' = (?ai', kni((py_str rt ?kind, n) \<mapsto> PDict kvs))"
        unfolding p acc by (simp add: Let_def)
      have nf: "(py_str rt ?kind, n) \<notin> set FORBIDDEN"
        using kept_key_not_forbidden [OF assms(1) [unfolded p] True Some] .
      show ?thesis
        unfolding a' cat_inv_def
        using ai' assms(2,3) nf unfolding p acc cat_inv_def
        by (auto split: if_splits)
    qed
  qed
qed

lemma index_places_inv:
  assumes "list_all (keep_place rt) ps" and "set ps \<subseteq> S" and "cat_inv S acc"
    and "index_places rt ps acc = Inr acc'"
  shows "cat_inv S acc'"
  using assms
proof (induction ps arbitrary: acc)
  case Nil
  then show ?case by simp
next
  case (Cons p ps)
  from Cons.prems(4) obtain acc1 where
    s1: "index_place rt p acc = Inr acc1" and s2: "index_places rt ps acc1 = Inr acc'"
    by (auto split: sum.splits)
  have "cat_inv S acc1"
    using index_place_inv [OF _ _ Cons.prems(3) s1] Cons.prems(1,2) by simp
  then show ?case
    using Cons.IH [OF _ _ _ s2] Cons.prems(1,2) by simp
qed

lemma load_places_inv:
  assumes "load_places rt data = Inr cat"
  shows "list_all (keep_place rt) (all_places cat) \<and>
         cat_inv (set (all_places cat)) (alias_index cat, kind_num_index cat)"
proof -
  from assms obtain raw ai kni where
    cat: "cat = \<lparr>alias_index = ai, kind_num_index = kni,
                 all_places = filter (keep_place rt) raw\<rparr>"
    and idx: "index_places rt (filter (keep_place rt) raw) ([], Map.empty) = Inr (ai, kni)"
    by (auto simp: load_places_def Let_def split: sum.splits prod.splits)
  have k: "list_all (keep_place rt) (filter (keep_place rt) raw)"
    by (simp add: list_all_iff)
  have i0: "cat_inv (set (filter (keep_place rt) raw)) ([], Map.empty)"
    by (simp add: cat_inv_def)
  from index_places_inv [OF k subset_refl i0 idx] k
  show ?thesis unfolding cat by simp
qed

lemma norm_examples:
  "norm (ustr ''Main'') = ustr ''main''" "norm (ustr ''fourth dorm'') = ustr ''fourth dorm''"
  by (simp_all add: norm_defs)

lemma class1_get:
  "get_default class1_items (ustr ''kind'') d = PStr (ustr ''class'')"
  "get_default class1_items (ustr ''number'') d = PInt 1"
  "get_default class1_items (ustr ''aliases'') d = PList [PStr (ustr ''Main'')]"
  by (simp_all add: class1_items_def get_default_def)

lemma dorm4_get:
  "get_default dorm4_items (ustr ''kind'') d = PStr (ustr ''dorm'')"
  "get_default dorm4_items (ustr ''number'') d = PInt 4"
  by (simp_all add: dorm4_items_def get_default_def)

lemma dorm4_float_get:
  "get_default dorm4_float_items (ustr ''kind'') d = PStr (ustr ''dorm'')"
  "get_default dorm4_float_items (ustr ''number'') d = PFloat 4"
  "get_default dorm4_float_items (ustr ''aliases'') d = PList [PStr (ustr ''fourth dorm'')]"
  by (simp_all add: dorm4_float_items_def get_default_def)

lemma example_places_kept:
  "keep_place rt0 place_class1" "\<not> keep_place rt0 place_dorm4"
  "keep_place rt0 place_dorm4_float"
  by (simp_all add: place_class1_def place_dorm4_def place_dorm4_float_def forbidden_place_def
      class1_get dorm4_get dorm4_float_get py_or_def in_FORBIDDEN_int FORBIDDEN_def)

lemma example_catalog_loaded: "load_places rt0 example_locations = Inr example_catalog"
proof -
  have i: "index_place rt0 place_class1 ([], Map.empty) =
             Inr ([(ustr ''main'', place_class1)], [(ustr ''class'', 1) \<mapsto> place_class1])"
    by (simp add: place_class1_def class1_get py_or_def norm_examples)
  show ?thesis
    by (simp add: load_places_def example_locations_def get_default_def example_places_kept i
        example_catalog_def)
qed

lemma example_catalog_float_loaded:
  "load_places rt0 example_locations_float = Inr example_catalog_float"
proof -
  have i: "index_place rt0 place_dorm4_float ([], Map.empty) =
             Inr ([(ustr ''fourth dorm'', place_dorm4_float)], Map.empty)"
    by (simp add: place_dorm4_float_def dorm4_float_get py_or_def norm_examples)
  show ?thesis
    by (simp add: load_places_def example_locations_float_def get_default_def
        example_places_kept i example_catalog_float_def)
qed

text \<open>
  Claim C3, as stated, fails: a record of kind dorm whose number is written 4.0 has its
  pair in the forbidden set, since \<^verbatim>\<open>("dorm", 4.0) in FORBIDDEN\<close> holds, yet the guard
  \<^verbatim>\<open>isinstance(num, int)\<close> of line 590 lets it through: it is in the list of places and in
  the alias index.
\<close>

theorem float_numbered_record_kept:
  "get_default dorm4_float_items (ustr ''kind'') PNone = PStr (ustr ''dorm'') \<and>
   get_default dorm4_float_items (ustr ''number'') PNone = PFloat 4 \<and>
   in_FORBIDDEN (ustr ''dorm'') (PFloat 4) \<and>
   load_places rt0 example_locations_float = Inr example_catalog_float \<and>
   all_places example_catalog_float = [PDict dorm4_float_items] \<and>
   alias_index example_catalog_float = [(ustr ''fourth dorm'', PDict dorm4_float_items)]"
  by (simp add: dorm4_float_get example_catalog_float_loaded example_catalog_float_def
      place_dorm4_float_def in_FORBIDDEN_def FORBIDDEN_def py_eq_def)

text \<open>
  Claim C3, amended.  Whatever the document, the catalog that \<^verbatim>\<open>load_places\<close> builds has no
  entry for (dorm, 4) nor for (class, 6) in the index by kind and number; every record of
  its list of places is a dictionary that the test of line 590 does not catch, that is, no
  record whose number is an integer and whose pair of kind and number is forbidden is in
  the list; and every record of the alias index and of the index by kind and number is one
  of that list.
\<close>

theorem forbidden_places_excluded:
  assumes "load_places rt data = Inr cat"
  shows "kind_num_index cat (ustr ''dorm'', 4) = None \<and>
         kind_num_index cat (ustr ''class'', 6) = None \<and>
         list_all (keep_place rt) (all_places cat) \<and>
         (\<forall>a p. (a, p) \<in> set (alias_index cat) \<longrightarrow> p \<in> set (all_places cat)) \<and>
         (\<forall>k p. kind_num_index cat k = Some p \<longrightarrow> p \<in> set (all_places cat))"
proof -
  from load_places_inv [OF assms]
  have k: "list_all (keep_place rt) (all_places cat)"
    and i: "cat_inv (set (all_places cat)) (alias_index cat, kind_num_index cat)"
    by simp_all
  from i have "kind_num_index cat (ustr ''dorm'', 4) = None"
    and "kind_num_index cat (ustr ''class'', 6) = None"
    by (simp_all add: cat_inv_def FORBIDDEN_def)
  moreover from i have "\<forall>a p. (a, p) \<in> set (alias_index cat) \<longrightarrow> p \<in> set (all_places cat)"
    and "\<forall>k p. kind_num_index cat k = Some p \<longrightarrow> p \<in> set (all_places cat)"
    by (simp_all add: cat_inv_def)
  ultimately show ?thesis using k by blast
qed

theorem forbidden_places_excluded_witness:
  "load_places rt0 example_locations = Inr example_catalog \<and>
   forbidden_place rt0 dorm4_items \<and>
   kind_num_index example_catalog (ustr ''dorm'', 4) = None \<and>
   all_places example_catalog = [place_class1] \<and>
   alias_index example_catalog = [(ustr ''main'', place_class1)]"
  using forbidden_places_excluded [OF example_catalog_loaded] example_catalog_loaded
    example_places_kept(2)
  by (simp add: example_catalog_def place_dorm4_def)

subsection \<open>The two-turn disambiguation\<close>

lemma text_4_facts:
  "text_4 \<noteq> []" "strip text_4 = text_4" "extract_number text_4 = Some 4"
  "NUM_ONLY_RE_match text_4 = Some text_4" "py_int_str text_4 = Some 4"
  "str_int 4 = text_4"
  by (simp_all add: text_4_def extract_number_def pattern_defs str_int_def dec_nat.simps)

lemma text_4_kind: "detect_kind text_4 = None" "\<not> is_list_request text_4"
  by (simp_all add: text_4_def detect_kind_def is_list_request_def norm_defs)

lemma text_dorm_facts:
  "text_dorm \<noteq> []" "strip text_dorm = text_dorm" "detect_kind text_dorm = Some (ustr ''dorm'')"
  by (simp_all add: text_dorm_def detect_kind_def norm_def strip_def isspace_def
      whitespace_def lower_cp_def)

lemma bare_number_turn:
  assumes "latest_text tr = PStr text_4" and "get_slot tr ''pending_number'' = PNone"
  shows "ActionSendLocation_run rt cat tr =
           Inr ([UtterAskPlaceType], [SlotSet ''pending_number'' (PStr text_4)])"
  using assms
  by (simp add: ActionSendLocation_run_def py_or_def resolve_text_def text_4_facts
      text_4_kind Let_def)

lemma kind_chosen_turn:
  assumes "latest_text tr = PStr text_dorm" and "latest_intent tr = Some ''choose_place_type''"
    and "get_slot tr ''pending_number'' = PStr text_4"
  shows "ActionSendLocation_run rt cat tr =
           Inr ([MsgNotAvailable],
                [SlotSet ''pending_number'' PNone,
                 SlotSet ''place_type'' (PStr (ustr ''dorm''))])"
  using assms
  by (simp add: ActionSendLocation_run_def py_or_def choose_place_type_def text_dorm_facts
      text_4_facts FORBIDDEN_def Let_def)

text \<open>
  Claim C4.  From the empty session, a turn with the text \<^verbatim>\<open>4\<close> (whatever its intent)
  asks for the kind and sets \<^verbatim>\<open>pending_number\<close> to the string \<^verbatim>\<open>4\<close>; the next turn, with
  the intent \<^verbatim>\<open>choose_place_type\<close> and the dormitory text, classifies the kind dorm, finds
  (dorm, 4) forbidden, replies with the not-available message and clears
  \<^verbatim>\<open>pending_number\<close>.  The catalog plays no part.
\<close>

theorem disambiguation_round_trip:
  "ActionSendLocation_run rt cat
     \<lparr>slot = no_slots, latest_text = PStr text_4, latest_intent = i, sender_id = u\<rparr> =
     Inr ([UtterAskPlaceType], [SlotSet ''pending_number'' (PStr text_4)]) \<and>
   ActionSendLocation_run rt cat
     \<lparr>slot = apply_events [SlotSet ''pending_number'' (PStr text_4)] no_slots,
      latest_text = PStr text_dorm, latest_intent = Some ''choose_place_type'',
      sender_id = u\<rparr> =
     Inr ([MsgNotAvailable],
          [SlotSet ''pending_number'' PNone, SlotSet ''place_type'' (PStr (ustr ''dorm''))]) \<and>
   apply_events
     [SlotSet ''pending_number'' PNone, SlotSet ''place_type'' (PStr (ustr ''dorm''))]
     (apply_events [SlotSet ''pending_number'' (PStr text_4)] no_slots) ''pending_number'' = PNone"
proof (intro conjI)
  show "ActionSendLocation_run rt cat
     \<lparr>slot = no_slots, latest_text = PStr text_4, latest_intent = i, sender_id = u\<rparr> =
     Inr ([UtterAskPlaceType], [SlotSet ''pending_number'' (PStr text_4)])"
    by (rule bare_number_turn) (simp_all add: get_slot_def no_slots_def)
  show "ActionSendLocation_run rt cat
     \<lparr>slot = apply_events [SlotSet ''pending_number'' (PStr text_4)] no_slots,
      latest_text = PStr text_dorm, latest_intent = Some ''choose_place_type'',
      sender_id = u\<rparr> =
     Inr ([MsgNotAvailable],
          [SlotSet ''pending_number'' PNone, SlotSet ''place_type'' (PStr (ustr ''dorm''))])"
    by (rule kind_chosen_turn) (simp_all add: get_slot_def)
  show "apply_events
     [SlotSet ''pending_number'' PNone, SlotSet ''place_type'' (PStr (ustr ''dorm''))]
     (apply_events [SlotSet ''pending_number'' (PStr text_4)] no_slots) ''pending_number'' = PNone"
    by simp
qed

theorem disambiguation_round_trip_witness:
  "ActionSendLocation_run rt0 example_catalog
     \<lparr>slot = no_slots, latest_text = PStr text_4, latest_intent = None, sender_id = []\<rparr> =
     Inr ([UtterAskPlaceType], [SlotSet ''pending_number'' (PStr text_4)]) \<and>
   ActionSendLocation_run rt0 example_catalog
     \<lparr>slot = no_slots(''pending_number'' := PStr text_4),
      latest_text = PStr text_dorm, latest_intent = Some ''choose_place_type'',
      sender_id = []\<rparr> =
     Inr ([MsgNotAvailable],
          [SlotSet ''pending_number'' PNone, SlotSet ''place_type'' (PStr (ustr ''dorm''))])"
  using disambiguation_round_trip [of rt0 example_catalog None "[]"]
  by simp


end
